theory Spec2Isabelle
  imports Complex_Main "HOL-Library.Char_ord" "HOL-Library.List_Lexorder"
begin

section \<open>Values, frames and errors\<close>

text \<open>
  The module \<^verbatim>\<open>utils.py\<close> is a set of functions over dataframes of a distributed
  query engine. A dataframe is modelled by what its functions can observe: the list of
  column names and the list of rows, each row a list of cells. A cell is null or a
  boolean, an integer, a fractional number, a string or a calendar date.

  The engine is a third-party library and no code of the module: its operations are
  modelled here from their documented behaviour, as far as the functions of the module
  use them. A dataframe is taken by its content: an error that the engine raises when it
  computes the rows belongs, in the model, to the call that built the dataframe.

  Scope of the model. An integer cell is a 64-bit integer (a column of the type
  \<^verbatim>\<open>bigint\<close>, as a count is), and arithmetic on integers that leaves the 64 bits
  fails or wraps around as the engine's ANSI mode says. Fractional numbers are exact
  rationals (the engine computes with binary doubles). Column names are plain names (no
  dots, no backticks, no nested fields), and two columns of one name are two different
  columns, as after a join. Cells carry their own type: a column is not declared with
  one. Where the engine leaves the order of rows open (grouping, distinct, rows that
  compare equal in a sort), the model fixes one order.
\<close>

type_synonym date = "int \<times> nat \<times> nat"

datatype val = Null | BoolV bool | IntV int | NumV rat | StrV string | DateV date

type_synonym row = "val list"

record dataframe =
  columns :: "string list"
  rows :: "row list"

datatype error =
    ValueError string
  | TypeError string
  | KeyError string
  | IndexError string
  | AssertionError string
  | AnalysisException string
  | ArithmeticException string
  | DateTimeException string
  | Py4JError string

text \<open>
  A computation that can raise gives an error or a value. A chain of them stops at
  the first error, and a list of them gives the list of their values or the first
  error.
\<close>

definition and_then :: "error + 'a \<Rightarrow> ('a \<Rightarrow> error + 'b) \<Rightarrow> error + 'b" where
  "and_then m f = (case m of Inl e \<Rightarrow> Inl e | Inr x \<Rightarrow> f x)"

fun sequence :: "(error + 'a) list \<Rightarrow> error + 'a list" where
  "sequence [] = Inr []"
| "sequence (m # ms) =
     (case m of
        Inl e \<Rightarrow> Inl e
      | Inr x \<Rightarrow> (case sequence ms of Inl e \<Rightarrow> Inl e | Inr xs \<Rightarrow> Inr (x # xs)))"

text \<open>Every row of a dataframe has one cell per column.\<close>

definition wf_df :: "dataframe \<Rightarrow> bool" where
  "wf_df df = list_all (\<lambda>r. length r = length (columns df)) (rows df)"

subsection \<open>Column names\<close>

text \<open>
  The engine resolves a name against the columns without regard to letter case (its
  default), and refuses a name that no column or more than one column answers to.
\<close>

definition lower_char :: "char \<Rightarrow> char" where
  "lower_char c =
     (let n = (of_char c :: nat) in if 65 \<le> n \<and> n \<le> 90 then char_of (n + 32) else c)"

definition lower :: "string \<Rightarrow> string" where
  "lower s = map lower_char s"

definition same_name :: "string \<Rightarrow> string \<Rightarrow> bool" where
  "same_name a b = (lower a = lower b)"

definition resolve :: "string list \<Rightarrow> string \<Rightarrow> error + nat" where
  "resolve cols c =
     (case filter (\<lambda>i. same_name (cols ! i) c) [0..<length cols] of
        [] \<Rightarrow> Inl (AnalysisException (''cannot resolve column '' @ c))
      | [i] \<Rightarrow> Inr i
      | _ \<Rightarrow> Inl (AnalysisException (''ambiguous reference '' @ c)))"

subsection \<open>Operations on cells\<close>

definition as_num :: "val \<Rightarrow> rat option" where
  "as_num v = (case v of IntV i \<Rightarrow> Some (of_int i) | NumV q \<Rightarrow> Some q | _ \<Rightarrow> None)"

definition date_less :: "date \<Rightarrow> date \<Rightarrow> bool" where
  "date_less a b =
     (case a of (y1, m1, d1) \<Rightarrow> (case b of (y2, m2, d2) \<Rightarrow>
        y1 < y2 \<or> (y1 = y2 \<and> (m1 < m2 \<or> (m1 = m2 \<and> d1 < d2)))))"

text \<open>The order of cells: null before everything else, then the order of the type.\<close>

definition val_less :: "val \<Rightarrow> val \<Rightarrow> bool" where
  "val_less a b =
     (case (as_num a, as_num b) of
        (Some x, Some y) \<Rightarrow> x < y
      | _ \<Rightarrow>
        (case (a, b) of
           (Null, Null) \<Rightarrow> False
         | (Null, _) \<Rightarrow> True
         | (BoolV x, BoolV y) \<Rightarrow> \<not> x \<and> y
         | (StrV s, StrV t) \<Rightarrow> s < t
         | (DateV d, DateV e) \<Rightarrow> date_less d e
         | _ \<Rightarrow> False))"

text \<open>
  The integers of 64 and of 32 bits, and what a wider integer becomes when it is cut to
  them. A product of integers that leaves the 64 bits raises in ANSI mode (the default
  from version 4 of the engine on) and wraps around otherwise.
\<close>

definition int64 :: "int \<Rightarrow> bool" where
  "int64 n = (- (2 ^ 63) \<le> n \<and> n < 2 ^ 63)"

definition int32 :: "int \<Rightarrow> bool" where
  "int32 n = (- (2 ^ 31) \<le> n \<and> n < 2 ^ 31)"

definition wrap64 :: "int \<Rightarrow> int" where
  "wrap64 n = (n + 2 ^ 63) mod 2 ^ 64 - 2 ^ 63"

definition wrap32 :: "int \<Rightarrow> int" where
  "wrap32 n = (n + 2 ^ 31) mod 2 ^ 32 - 2 ^ 31"

definition mul_val :: "bool \<Rightarrow> val \<Rightarrow> val \<Rightarrow> error + val" where
  "mul_val ansi a b =
     (case (a, b) of
        (IntV x, IntV y) \<Rightarrow>
          if int64 (x * y) then Inr (IntV (x * y))
          else if ansi then Inl (ArithmeticException ''long overflow'')
          else Inr (IntV (wrap64 (x * y)))
      | _ \<Rightarrow> (case (as_num a, as_num b) of
                (Some x, Some y) \<Rightarrow> Inr (NumV (x * y))
              | _ \<Rightarrow> Inr Null))"

text \<open>
  Division is fractional also on integers. A zero divisor under a dividend that is not
  null raises in ANSI mode and gives null otherwise.
\<close>

definition div_val :: "bool \<Rightarrow> val \<Rightarrow> val \<Rightarrow> error + val" where
  "div_val ansi a b =
     (case (as_num a, as_num b) of
        (Some x, Some y) \<Rightarrow>
          if y = 0 then (if ansi then Inl (ArithmeticException ''division by zero'') else Inr Null)
          else Inr (NumV (x / y))
      | _ \<Rightarrow> Inr Null)"

text \<open>Rounding to \<open>s\<close> decimal places, a half away from zero.\<close>

definition round_half_up :: "rat \<Rightarrow> nat \<Rightarrow> rat" where
  "round_half_up q s =
     sgn q * of_int \<lfloor>\<bar>q\<bar> * 10 ^ s + 1 / 2\<rfloor> / 10 ^ s"

definition round_val :: "nat \<Rightarrow> val \<Rightarrow> val" where
  "round_val s v =
     (case v of IntV i \<Rightarrow> IntV i | NumV q \<Rightarrow> NumV (round_half_up q s) | _ \<Rightarrow> Null)"

definition is_null :: "val \<Rightarrow> val" where
  "is_null v = BoolV (v = Null)"

definition eq_null_safe :: "val \<Rightarrow> val \<Rightarrow> val" where
  "eq_null_safe a b =
     BoolV (case (as_num a, as_num b) of (Some x, Some y) \<Rightarrow> x = y | _ \<Rightarrow> a = b)"

definition gt_val :: "val \<Rightarrow> val \<Rightarrow> val" where
  "gt_val a b = (if a = Null \<or> b = Null then Null else BoolV (val_less b a))"

definition isin_val :: "val list \<Rightarrow> val \<Rightarrow> val" where
  "isin_val vs v = (if v = Null then Null else BoolV (v \<in> set vs))"

definition when_val :: "val \<Rightarrow> val \<Rightarrow> val" where
  "when_val c v = (if c = BoolV True then v else Null)"

subsection \<open>Dates\<close>

definition leap_year :: "int \<Rightarrow> bool" where
  "leap_year y = (y mod 4 = 0 \<and> (y mod 100 \<noteq> 0 \<or> y mod 400 = 0))"

definition days_in_month :: "int \<Rightarrow> nat \<Rightarrow> nat" where
  "days_in_month y m =
     (if m = 2 then (if leap_year y then 29 else 28)
      else if m = 4 \<or> m = 6 \<or> m = 9 \<or> m = 11 then 30 else 31)"

definition valid_date :: "date \<Rightarrow> bool" where
  "valid_date dt =
     (case dt of (y, m, d) \<Rightarrow> 1 \<le> m \<and> m \<le> 12 \<and> 1 \<le> d \<and> d \<le> days_in_month y m)"

text \<open>
  \<^verbatim>\<open>add_months\<close>: the month moves by \<open>n\<close>, the day of the month is kept where the
  new month has it and is the new month's last day otherwise. This is the arithmetic of
  the calendar alone, on a date of any year and for any number of months: what the
  engine can hold is checked where it adds months to a cell, and what Python can hold
  where a date is brought to Python.
\<close>

definition add_months :: "date \<Rightarrow> int \<Rightarrow> date" where
  "add_months dt n =
     (case dt of (y, m, d) \<Rightarrow>
        (let t = y * 12 + (int m - 1) + n;
             y' = t div 12;
             m' = nat (t mod 12) + 1
         in (y', m', min d (days_in_month y' m'))))"

text \<open>
  The engine holds a date as the number of days since 1970-01-01 in 32 bits; the number
  of days is that of the proleptic Gregorian calendar.
\<close>

definition epoch_days :: "date \<Rightarrow> int" where
  "epoch_days dt =
     (case dt of (y, m, d) \<Rightarrow>
        (let y' = (if m \<le> 2 then y - 1 else y);
             era = y' div 400;
             yoe = y' - era * 400;
             mp = (if m \<le> 2 then int m + 9 else int m - 3);
             doy = (153 * mp + 2) div 5 + int d - 1;
             doe = yoe * 365 + yoe div 4 - yoe div 100 + doy
         in era * 146097 + doe - 719468))"

definition digit_of :: "char \<Rightarrow> nat option" where
  "digit_of c =
     (let n = (of_char c :: nat) in if 48 \<le> n \<and> n \<le> 57 then Some (n - 48) else None)"

text \<open>
  A string is read as a date in the form \<^verbatim>\<open>yyyy-mm-dd\<close>, and is null when it is
  not one. The other forms the engine reads (a year alone, a year and a month, months
  and days of one digit, blanks around the date, a time after it) are not modelled: the
  model takes such a string as one that is no date.
\<close>

definition parse_date :: "string \<Rightarrow> val" where
  "parse_date s =
     (case s of
        [y1, y2, y3, y4, h1, m1, m2, h2, d1, d2] \<Rightarrow>
          (case those (map digit_of [y1, y2, y3, y4, m1, m2, d1, d2]) of
             Some [a, b, c, d, e, f, g, h] \<Rightarrow>
               (let dt = (int (a * 1000 + b * 100 + c * 10 + d), e * 10 + f, g * 10 + h)
                in if h1 = CHR ''-'' \<and> h2 = CHR ''-'' \<and> valid_date dt then DateV dt else Null)
           | _ \<Rightarrow> Null)
      | _ \<Rightarrow> Null)"

text \<open>
  The cast to a date: a date is itself and a string is read. A string that is not read
  as a date raises in ANSI mode and gives null otherwise.
\<close>

definition to_date_val :: "val \<Rightarrow> val" where
  "to_date_val v = (case v of DateV d \<Rightarrow> DateV d | StrV s \<Rightarrow> parse_date s | _ \<Rightarrow> Null)"

definition cast_date :: "bool \<Rightarrow> val \<Rightarrow> error + val" where
  "cast_date ansi v =
     (case v of
        StrV s \<Rightarrow>
          if ansi \<and> parse_date s = Null
          then Inl (DateTimeException (''cannot cast to a date: '' @ s))
          else Inr (parse_date s)
      | _ \<Rightarrow> Inr (to_date_val v))"

text \<open>
  \<^verbatim>\<open>add_months\<close> on a cell: the cell is cast to a date, and a null stays null. The
  number of months is an integer of 32 bits: a wider one raises in ANSI mode and is cut
  to 32 bits otherwise. The result must be a date the engine can hold.
\<close>

definition add_months_val :: "bool \<Rightarrow> val \<Rightarrow> int \<Rightarrow> error + val" where
  "add_months_val ansi v n =
     (case cast_date ansi v of
        Inl e \<Rightarrow> Inl e
      | Inr (DateV d) \<Rightarrow>
          if ansi \<and> \<not> int32 n then Inl (ArithmeticException ''integer overflow'')
          else (let dt = add_months d (if int32 n then n else wrap32 n)
                in if int32 (epoch_days dt) then Inr (DateV dt)
                   else Inl (ArithmeticException ''integer overflow''))
      | Inr _ \<Rightarrow> Inr Null)"

section \<open>The engine's operations\<close>

subsection \<open>Column expressions\<close>

text \<open>
  The engine's ANSI mode is a setting of the session a dataframe belongs to, and a
  parameter of the model. What the engine computes for the casts other than the cast
  to a date and for its string and time functions is not decided by the module: it is
  a parameter too, as are the summary statistics, the filling of nulls, the two
  printers of a dataframe and the currency formatter of the formatting library, which
  formats a number in a currency for a locale.
\<close>

datatype dtype = DateType | DecimalType int int | FloatType | IntegerType | StringType

record engine =
  ansi_enabled :: bool
  cast_fn :: "dtype \<Rightarrow> val \<Rightarrow> val"
  sql_fn :: "string \<Rightarrow> val list \<Rightarrow> val"
  summary_fn :: "dataframe \<Rightarrow> dataframe"
  fillna_fn :: "val \<Rightarrow> string list \<Rightarrow> dataframe \<Rightarrow> error + dataframe"
  schema_lines :: "dataframe \<Rightarrow> string list"
  show_lines :: "nat \<Rightarrow> dataframe \<Rightarrow> string list"
  format_currency :: "val \<Rightarrow> string \<Rightarrow> string \<Rightarrow> val"

datatype expr =
    Col string
  | Lit val
  | Alias expr string
  | Mul expr expr
  | Div expr expr
  | Round expr nat
  | IsNull expr
  | EqNullSafe expr expr
  | Gt expr expr
  | IsIn expr "val list"
  | When expr expr
  | Cast expr dtype
  | Udf "val \<Rightarrow> val" expr
  | Call string expr "val list"

definition cast_val :: "engine \<Rightarrow> dtype \<Rightarrow> val \<Rightarrow> error + val" where
  "cast_val eng t v =
     (case t of DateType \<Rightarrow> cast_date (ansi_enabled eng) v | _ \<Rightarrow> Inr (cast_fn eng t v))"

text \<open>
  An expression is first bound to the columns of the dataframe it is used on, which
  fails when a name does not resolve, whatever the rows are; the result computes the
  expression's cell on each row, which can fail on the row.
\<close>

type_synonym cellfn = "row \<Rightarrow> error + val"

definition lift1 :: "(val \<Rightarrow> error + val) \<Rightarrow> error + cellfn \<Rightarrow> error + cellfn" where
  "lift1 h m = (case m of Inl e \<Rightarrow> Inl e | Inr f \<Rightarrow> Inr (\<lambda>r. and_then (f r) h))"

definition lift2 ::
  "(val \<Rightarrow> val \<Rightarrow> error + val) \<Rightarrow> error + cellfn \<Rightarrow> error + cellfn \<Rightarrow> error + cellfn" where
  "lift2 h m1 m2 =
     (case m1 of
        Inl e \<Rightarrow> Inl e
      | Inr f \<Rightarrow>
          (case m2 of
             Inl e \<Rightarrow> Inl e
           | Inr g \<Rightarrow> Inr (\<lambda>r. and_then (f r) (\<lambda>a. and_then (g r) (\<lambda>b. h a b)))))"

fun bind_expr :: "engine \<Rightarrow> string list \<Rightarrow> expr \<Rightarrow> error + cellfn" where
  "bind_expr eng cols (Col c) =
     (case resolve cols c of Inl e \<Rightarrow> Inl e | Inr i \<Rightarrow> Inr (\<lambda>r. Inr (r ! i)))"
| "bind_expr eng cols (Lit v) = Inr (\<lambda>r. Inr v)"
| "bind_expr eng cols (Alias e n) = bind_expr eng cols e"
| "bind_expr eng cols (Mul a b) =
     lift2 (mul_val (ansi_enabled eng)) (bind_expr eng cols a) (bind_expr eng cols b)"
| "bind_expr eng cols (Div a b) =
     lift2 (div_val (ansi_enabled eng)) (bind_expr eng cols a) (bind_expr eng cols b)"
| "bind_expr eng cols (Round e s) = lift1 (\<lambda>v. Inr (round_val s v)) (bind_expr eng cols e)"
| "bind_expr eng cols (IsNull e) = lift1 (\<lambda>v. Inr (is_null v)) (bind_expr eng cols e)"
| "bind_expr eng cols (EqNullSafe a b) =
     lift2 (\<lambda>x y. Inr (eq_null_safe x y)) (bind_expr eng cols a) (bind_expr eng cols b)"
| "bind_expr eng cols (Gt a b) =
     lift2 (\<lambda>x y. Inr (gt_val x y)) (bind_expr eng cols a) (bind_expr eng cols b)"
| "bind_expr eng cols (IsIn e vs) = lift1 (\<lambda>v. Inr (isin_val vs v)) (bind_expr eng cols e)"
| "bind_expr eng cols (When c e) =
     lift2 (\<lambda>x y. Inr (when_val x y)) (bind_expr eng cols c) (bind_expr eng cols e)"
| "bind_expr eng cols (Cast e t) = lift1 (cast_val eng t) (bind_expr eng cols e)"
| "bind_expr eng cols (Udf h e) = lift1 (\<lambda>v. Inr (h v)) (bind_expr eng cols e)"
| "bind_expr eng cols (Call f e args) =
     lift1 (\<lambda>v. Inr (sql_fn eng f (v # args))) (bind_expr eng cols e)"

text \<open>
  The name of the column an expression makes: its alias, the name as written for a
  plain column, the name of what is cast for a cast. The names the engine generates
  for other expressions are not modelled; no function of the module lets one reach a
  result.
\<close>

fun out_name :: "expr \<Rightarrow> string" where
  "out_name (Col c) = c"
| "out_name (Alias e n) = n"
| "out_name (Cast e t) = out_name e"
| "out_name e = ''<expression>''"

text \<open>The cells of a cell function on every row, or the first failure.\<close>

definition on_rows :: "(row \<Rightarrow> error + 'a) \<Rightarrow> row list \<Rightarrow> error + 'a list" where
  "on_rows f rs = sequence (map f rs)"

subsection \<open>Projection and filtering\<close>

definition select :: "engine \<Rightarrow> dataframe \<Rightarrow> expr list \<Rightarrow> error + dataframe" where
  "select eng df es =
     and_then (sequence (map (bind_expr eng (columns df)) es))
       (\<lambda>fs. and_then (on_rows (\<lambda>r. sequence (map (\<lambda>f. f r) fs)) (rows df))
          (\<lambda>rs. Inr \<lparr>columns = map out_name es, rows = rs\<rparr>))"

definition filter_df :: "engine \<Rightarrow> dataframe \<Rightarrow> expr \<Rightarrow> error + dataframe" where
  "filter_df eng df cond =
     and_then (bind_expr eng (columns df) cond)
       (\<lambda>f. and_then (on_rows f (rows df))
          (\<lambda>vs. Inr (df\<lparr>rows := map fst (filter (\<lambda>p. snd p = BoolV True)
                                             (zip (rows df) vs))\<rparr>)))"

text \<open>
  \<^verbatim>\<open>withColumn\<close> replaces every column that answers to the name, and appends
  the column when there is none; \<^verbatim>\<open>withColumnRenamed\<close> renames every column that
  answers to the old name.
\<close>

definition withColumn :: "engine \<Rightarrow> dataframe \<Rightarrow> string \<Rightarrow> expr \<Rightarrow> error + dataframe" where
  "withColumn eng df n e =
     and_then (bind_expr eng (columns df) e)
       (\<lambda>f. and_then (on_rows f (rows df))
          (\<lambda>vs.
             if list_ex (\<lambda>c. same_name c n) (columns df)
             then Inr \<lparr>columns = map (\<lambda>c. if same_name c n then n else c) (columns df),
                       rows = map (\<lambda>(r, v). map (\<lambda>(c, x). if same_name c n then v else x)
                                               (zip (columns df) r))
                                (zip (rows df) vs)\<rparr>
             else Inr \<lparr>columns = columns df @ [n],
                       rows = map (\<lambda>(r, v). r @ [v]) (zip (rows df) vs)\<rparr>))"

definition withColumnRenamed :: "dataframe \<Rightarrow> string \<Rightarrow> string \<Rightarrow> dataframe" where
  "withColumnRenamed df old new =
     df\<lparr>columns := map (\<lambda>c. if same_name c old then new else c) (columns df)\<rparr>"

definition distinct_df :: "dataframe \<Rightarrow> dataframe" where
  "distinct_df df = df\<lparr>rows := remdups (rows df)\<rparr>"

text \<open>
  \<^verbatim>\<open>limit\<close> takes an integer of 32 bits that is not negative; the bridge to the
  engine finds no method for a wider integer.
\<close>

definition limit :: "dataframe \<Rightarrow> int \<Rightarrow> error + dataframe" where
  "limit df n =
     (if \<not> int32 n then Inl (Py4JError ''no method limit for the argument'')
      else if n < 0 then Inl (AnalysisException ''the limit must not be negative'')
      else Inr (df\<lparr>rows := take (nat n) (rows df)\<rparr>))"

definition count_df :: "dataframe \<Rightarrow> int" where
  "count_df df = int (length (rows df))"

subsection \<open>Sorting\<close>

datatype sortorder = Asc expr | Desc expr

text \<open>
  Ascending order puts nulls first and descending order puts them last. The order of
  two rows by a list of sort orders is lexicographic on their sort cells: an earlier
  sort order decides before a later one. The model sorts by insertion, which keeps
  rows that compare equal in their order.
\<close>

definition before :: "bool \<Rightarrow> val \<Rightarrow> val \<Rightarrow> bool" where
  "before ascending a b = (if ascending then val_less a b else val_less b a)"

fun keys_le :: "bool list \<Rightarrow> val list \<Rightarrow> val list \<Rightarrow> bool" where
  "keys_le (ascending # more_orders) (x # xs) (y # ys) =
     (if before ascending x y then True
      else if before ascending y x then False
      else keys_le more_orders xs ys)"
| "keys_le orders xs ys = True"

fun insort_by :: "('a \<Rightarrow> 'a \<Rightarrow> bool) \<Rightarrow> 'a \<Rightarrow> 'a list \<Rightarrow> 'a list" where
  "insort_by le x [] = [x]"
| "insort_by le x (y # ys) = (if le x y then x # y # ys else y # insort_by le x ys)"

definition sort_by :: "('a \<Rightarrow> 'a \<Rightarrow> bool) \<Rightarrow> 'a list \<Rightarrow> 'a list" where
  "sort_by le xs = foldr (insort_by le) xs []"

fun bind_order :: "engine \<Rightarrow> string list \<Rightarrow> sortorder \<Rightarrow> error + (bool \<times> cellfn)" where
  "bind_order eng cols (Asc e) =
     (case bind_expr eng cols e of Inl err \<Rightarrow> Inl err | Inr f \<Rightarrow> Inr (True, f))"
| "bind_order eng cols (Desc e) =
     (case bind_expr eng cols e of Inl err \<Rightarrow> Inl err | Inr f \<Rightarrow> Inr (False, f))"

definition orderBy :: "engine \<Rightarrow> dataframe \<Rightarrow> sortorder list \<Rightarrow> error + dataframe" where
  "orderBy eng df orders =
     and_then (sequence (map (bind_order eng (columns df)) orders))
       (\<lambda>ks. and_then (on_rows (\<lambda>r. sequence (map (\<lambda>k. snd k r) ks)) (rows df))
          (\<lambda>kss. Inr (df\<lparr>rows := map fst
                          (sort_by (\<lambda>p q. keys_le (map fst ks) (snd p) (snd q))
                             (zip (rows df) kss))\<rparr>)))"

subsection \<open>Aggregation\<close>

datatype aggexpr =
    Count expr
  | CountDistinct expr
  | Max expr
  | Min expr
  | Sum expr
  | AddMonths aggexpr int
  | AggAlias aggexpr string

definition count_val :: "val list \<Rightarrow> val" where
  "count_val vs = IntV (int (length (filter (\<lambda>v. v \<noteq> Null) vs)))"

definition count_distinct_val :: "val list \<Rightarrow> val" where
  "count_distinct_val vs = IntV (int (length (remdups (filter (\<lambda>v. v \<noteq> Null) vs))))"

text \<open>Null is below every other cell, so the maximum passes over nulls by itself.\<close>

fun max_val :: "val list \<Rightarrow> val" where
  "max_val [] = Null"
| "max_val (v # vs) = (let m = max_val vs in if val_less m v then v else m)"

fun min_val :: "val list \<Rightarrow> val" where
  "min_val [] = Null"
| "min_val (v # vs) =
     (let m = min_val vs
      in if v = Null then m else if m = Null then v else if val_less v m then v else m)"

text \<open>
  The sum passes over nulls; it is an integer over integers, where a partial sum that
  leaves the 64 bits raises in ANSI mode and wraps around otherwise.
\<close>

fun sum_ints :: "bool \<Rightarrow> int \<Rightarrow> int list \<Rightarrow> error + int" where
  "sum_ints ansi acc [] = Inr acc"
| "sum_ints ansi acc (x # xs) =
     (if int64 (acc + x) then sum_ints ansi (acc + x) xs
      else if ansi then Inl (ArithmeticException ''long overflow'')
      else sum_ints ansi (wrap64 (acc + x)) xs)"

definition sum_val :: "bool \<Rightarrow> val list \<Rightarrow> error + val" where
  "sum_val ansi vs =
     (let xs = filter (\<lambda>v. v \<noteq> Null) vs
      in if xs = [] then Inr Null
         else if list_all (\<lambda>v. case v of IntV i \<Rightarrow> True | _ \<Rightarrow> False) xs
         then and_then (sum_ints ansi 0 (map (\<lambda>v. case v of IntV i \<Rightarrow> i | _ \<Rightarrow> 0) xs))
                (\<lambda>t. Inr (IntV t))
         else (case those (map as_num xs) of
                 Some qs \<Rightarrow> Inr (NumV (sum_list qs))
               | None \<Rightarrow> Inr Null))"

type_synonym aggfn = "row list \<Rightarrow> error + val"

definition agg1 :: "(val list \<Rightarrow> error + val) \<Rightarrow> error + cellfn \<Rightarrow> error + aggfn" where
  "agg1 h m = (case m of Inl e \<Rightarrow> Inl e | Inr f \<Rightarrow> Inr (\<lambda>rs. and_then (on_rows f rs) h))"

fun bind_agg :: "engine \<Rightarrow> string list \<Rightarrow> aggexpr \<Rightarrow> error + aggfn" where
  "bind_agg eng cols (Count e) = agg1 (\<lambda>vs. Inr (count_val vs)) (bind_expr eng cols e)"
| "bind_agg eng cols (CountDistinct e) =
     agg1 (\<lambda>vs. Inr (count_distinct_val vs)) (bind_expr eng cols e)"
| "bind_agg eng cols (Max e) = agg1 (\<lambda>vs. Inr (max_val vs)) (bind_expr eng cols e)"
| "bind_agg eng cols (Min e) = agg1 (\<lambda>vs. Inr (min_val vs)) (bind_expr eng cols e)"
| "bind_agg eng cols (Sum e) = agg1 (sum_val (ansi_enabled eng)) (bind_expr eng cols e)"
| "bind_agg eng cols (AddMonths a n) =
     (case bind_agg eng cols a of
        Inl e \<Rightarrow> Inl e
      | Inr g \<Rightarrow> Inr (\<lambda>rs. and_then (g rs) (\<lambda>v. add_months_val (ansi_enabled eng) v n)))"
| "bind_agg eng cols (AggAlias a n) = bind_agg eng cols a"

fun agg_name :: "aggexpr \<Rightarrow> string" where
  "agg_name (AggAlias a n) = n"
| "agg_name a = ''<aggregate>''"

text \<open>
  Grouping: one result row per distinct combination of the key cells, holding the key
  cells and then the aggregates over the rows of that combination. Without keys there
  is one group, also over no rows.
\<close>

definition group_rows :: "row list \<Rightarrow> row list \<Rightarrow> bool \<Rightarrow> aggfn list \<Rightarrow> error + row list" where
  "group_rows rs keys no_keys gs =
     (let groups = (if no_keys then [[]] else remdups keys)
      in sequence
           (map (\<lambda>key.
                   and_then
                     (sequence
                        (map (\<lambda>g. g (map fst (filter (\<lambda>p. snd p = key) (zip rs keys)))) gs))
                     (\<lambda>vs. Inr (key @ vs)))
              groups))"

definition grouped ::
  "engine \<Rightarrow> dataframe \<Rightarrow> expr list \<Rightarrow> aggexpr list \<Rightarrow> error + dataframe" where
  "grouped eng df keys aggs =
     and_then (sequence (map (bind_expr eng (columns df)) keys))
       (\<lambda>ks. and_then (sequence (map (bind_agg eng (columns df)) aggs))
          (\<lambda>gs. and_then (on_rows (\<lambda>r. sequence (map (\<lambda>k. k r) ks)) (rows df))
             (\<lambda>key_cells. and_then (group_rows (rows df) key_cells (ks = []) gs)
                (\<lambda>rs. Inr \<lparr>columns = map out_name keys @ map agg_name aggs, rows = rs\<rparr>))))"

text \<open>
  \<^verbatim>\<open>GroupedData.agg\<close> asserts that it is given at least one aggregate;
  \<^verbatim>\<open>DataFrame.agg\<close> is the same on the grouping without keys;
  \<^verbatim>\<open>GroupedData.count\<close> counts the rows of each group in a column \<^verbatim>\<open>count\<close>.
\<close>

definition groupBy_agg ::
  "engine \<Rightarrow> dataframe \<Rightarrow> expr list \<Rightarrow> aggexpr list \<Rightarrow> error + dataframe" where
  "groupBy_agg eng df keys aggs =
     (if aggs = [] then Inl (AssertionError ''exprs should not be empty'')
      else grouped eng df keys aggs)"

definition agg :: "engine \<Rightarrow> dataframe \<Rightarrow> aggexpr list \<Rightarrow> error + dataframe" where
  "agg eng df aggs = groupBy_agg eng df [] aggs"

definition groupBy_count :: "engine \<Rightarrow> dataframe \<Rightarrow> expr list \<Rightarrow> error + dataframe" where
  "groupBy_count eng df keys =
     grouped eng df keys [AggAlias (Count (Lit (IntV 1))) ''count'']"

section \<open>The module\<close>

subsection \<open>Python values the functions pass around\<close>

text \<open>
  Several parameters take one column name or a list of names. A dictionary literal
  indexed by a key that it lacks raises \<^verbatim>\<open>KeyError\<close>. A function that prints is
  modelled by the lines it prints together with what it returns or raises.
\<close>

datatype cols_arg = OneCol string | ManyCols "string list"

fun cols_list :: "cols_arg \<Rightarrow> string list" where
  "cols_list (OneCol c) = [c]"
| "cols_list (ManyCols cs) = cs"

definition py_lookup :: "(string \<times> 'a) list \<Rightarrow> string \<Rightarrow> error + 'a" where
  "py_lookup d k = (case map_of d k of None \<Rightarrow> Inl (KeyError k) | Some v \<Rightarrow> Inr v)"

text \<open>
  What a function returns is a Python object: \<^verbatim>\<open>None\<close>, a dataframe, or a value
  that is no dataframe (a date, a number, a string). \<^verbatim>\<open>DataFrame.transform\<close> calls
  a function on the dataframe and asserts that what comes back is a dataframe.
\<close>

datatype pyobj = PyNone | PyDataFrame dataframe | PyValue val

definition return_df :: "error + dataframe \<Rightarrow> error + pyobj" where
  "return_df m = and_then m (\<lambda>d. Inr (PyDataFrame d))"

definition transform :: "dataframe \<Rightarrow> (dataframe \<Rightarrow> error + pyobj) \<Rightarrow> error + dataframe" where
  "transform df func =
     and_then (func df)
       (\<lambda>result. case result of
          PyDataFrame d \<Rightarrow> Inr d
        | _ \<Rightarrow> Inl (AssertionError ''Func returned an instance that should have been DataFrame''))"

text \<open>
  A Python integer is unbounded. Where one becomes part of a column expression it
  crosses the bridge to the engine, which carries integers of at most 64 bits and
  fails on a wider one.
\<close>

definition py_long :: "int \<Rightarrow> error + int" where
  "py_long n = (if int64 n then Inr n else Inl (Py4JError ''the integer does not fit in 64 bits''))"

text \<open>
  \<^verbatim>\<open>collect\<close> brings the rows to Python, where a date is a \<^verbatim>\<open>datetime.date\<close>, which
  has the years 1 to 9999 and raises \<^verbatim>\<open>ValueError\<close> outside of them.
  \<^verbatim>\<open>collect()[0][0]\<close> is the first cell of the first row.
\<close>

definition to_python :: "val \<Rightarrow> error + val" where
  "to_python v =
     (case v of
        DateV (y, m, d) \<Rightarrow>
          if 1 \<le> y \<and> y \<le> 9999 then Inr v else Inl (ValueError ''year is out of range'')
      | _ \<Rightarrow> Inr v)"

definition collect :: "dataframe \<Rightarrow> error + row list" where
  "collect df = sequence (map (\<lambda>r. sequence (map to_python r)) (rows df))"

definition first_cell :: "row list \<Rightarrow> error + val" where
  "first_cell rs =
     (case rs of
        [] \<Rightarrow> Inl (IndexError ''list index out of range'')
      | r # _ \<Rightarrow> (case r of [] \<Rightarrow> Inl (IndexError ''tuple index out of range'') | v # _ \<Rightarrow> Inr v))"

text \<open>
  A Python object as the operand of a comparison with a column: \<^verbatim>\<open>None\<close> is the
  null literal and a value is its literal. A dataframe is no operand (the module
  compares a column with what \<^verbatim>\<open>obter_data_inicial\<close> returns, which is a value).
\<close>

definition operand :: "pyobj \<Rightarrow> error + expr" where
  "operand x =
     (case x of
        PyNone \<Rightarrow> Inr (Lit Null)
      | PyValue v \<Rightarrow> Inr (Lit v)
      | PyDataFrame d \<Rightarrow> Inl (TypeError ''a dataframe is not a literal''))"

definition digit_char :: "nat \<Rightarrow> char" where
  "digit_char n = char_of (48 + n mod 10)"

function str_nat :: "nat \<Rightarrow> string" where
  "str_nat n = (if n < 10 then [digit_char n] else str_nat (n div 10) @ [digit_char n])"
  by pat_completeness auto
termination
  by (relation "measure id") auto

definition str_int :: "int \<Rightarrow> string" where
  "str_int i = (if i < 0 then ''-'' @ str_nat (nat (- i)) else str_nat (nat i))"

fun join_with :: "string \<Rightarrow> string list \<Rightarrow> string" where
  "join_with sep [] = []"
| "join_with sep [s] = s"
| "join_with sep (s # t # ss) = s @ sep @ join_with sep (t # ss)"

text \<open>
  How an f-string shows a column argument: a name as it is, a list of names in
  brackets with each name in single quotes (names without quotes or escapes).
\<close>

fun str_cols :: "cols_arg \<Rightarrow> string" where
  "str_cols (OneCol c) = c"
| "str_cols (ManyCols cs) =
     ''['' @ join_with '', '' (map (\<lambda>c. [CHR 0x27] @ c @ [CHR 0x27]) cs) @ '']''"

text \<open>
  The clock: a calendar date and the time of day. \<^verbatim>\<open>strftime("%Y-%m-%d")\<close> writes
  the date with a four-digit year (years from 1000 on) and two-digit month and day.
\<close>

record datetime =
  dt_date :: date
  dt_microseconds :: nat

text \<open>
  The environment a call runs in, as far as the module reads it: the clock, and the
  default locale of the formatting library, which the library takes from the
  environment variables of the process.
\<close>

record environment =
  clock :: datetime
  default_locale :: string

definition strftime_ymd :: "datetime \<Rightarrow> string" where
  "strftime_ymd t =
     (case dt_date t of (y, m, d) \<Rightarrow>
        map digit_char [nat y div 1000, nat y div 100, nat y div 10, nat y] @ ''-'' @
        map digit_char [m div 10, m] @ ''-'' @
        map digit_char [d div 10, d])"

subsection \<open>Date columns\<close>

definition criar_col_dat_hoje ::
  "engine \<Rightarrow> environment \<Rightarrow> dataframe \<Rightarrow> string \<Rightarrow> error + pyobj" where
  "criar_col_dat_hoje eng env df nm_col =
     return_df
       (withColumn eng df nm_col (Cast (Lit (StrV (strftime_ymd (clock env)))) DateType))"

text \<open>
  \<^verbatim>\<open>obter_data_inicial\<close>: the negated number of months becomes a literal of the
  expression, the aggregate is computed, and its one cell is brought to Python.
\<close>

definition obter_data_inicial ::
  "engine \<Rightarrow> environment \<Rightarrow> dataframe \<Rightarrow> string \<Rightarrow> int \<Rightarrow> error + pyobj" where
  "obter_data_inicial eng env df nm_col_filtrada n_meses =
     and_then (py_long (- n_meses))
       (\<lambda>months. and_then (agg eng df [AddMonths (Max (Col nm_col_filtrada)) months])
          (\<lambda>d. and_then (collect d)
             (\<lambda>rs. and_then (first_cell rs) (\<lambda>v. Inr (PyValue v)))))"

definition filtrar_ultimos_n_meses ::
  "engine \<Rightarrow> environment \<Rightarrow> dataframe \<Rightarrow> string \<Rightarrow> int \<Rightarrow> error + pyobj" where
  "filtrar_ultimos_n_meses eng env df nm_col_filtrada n_meses =
     and_then (obter_data_inicial eng env df nm_col_filtrada n_meses)
       (\<lambda>data_inicial. and_then (operand data_inicial)
          (\<lambda>lit_data_inicial.
             return_df
               (filter_df eng df (Gt (Cast (Col nm_col_filtrada) DateType) lit_data_inicial))))"

definition obter_distrib_data ::
  "engine \<Rightarrow> environment \<Rightarrow> dataframe \<Rightarrow> string list \<Rightarrow> error + pyobj" where
  "obter_distrib_data eng env df lst_cols_dat =
     return_df
       (and_then
          (select eng df (map (\<lambda>c. Alias (Call ''unix_timestamp'' (Col c) []) c) lst_cols_dat))
          (\<lambda>d1. and_then
             (filter_df eng (summary_fn eng d1)
                (IsIn (Col ''summary'')
                   [StrV ''min'', StrV ''25%'', StrV ''50%'', StrV ''75%'', StrV ''max'']))
             (\<lambda>d2. select eng d2
                (Col ''summary'' #
                 map (\<lambda>c. Alias (Cast (Call ''from_unixtime'' (Col c) []) DateType) c)
                   lst_cols_dat))))"

subsection \<open>Numeric columns\<close>

definition obter_distrib ::
  "engine \<Rightarrow> environment \<Rightarrow> dataframe \<Rightarrow> cols_arg \<Rightarrow> error + pyobj" where
  "obter_distrib eng env df cols_num =
     return_df
       (and_then (select eng df (map Col (cols_list cols_num))) (\<lambda>d. Inr (summary_fn eng d)))"

definition obter_intervalo ::
  "engine \<Rightarrow> environment \<Rightarrow> dataframe \<Rightarrow> string \<Rightarrow> error + pyobj" where
  "obter_intervalo eng env df nm_col_num =
     return_df
       (agg eng df [AggAlias (Min (Col nm_col_num)) ''valor_inicial'',
                    AggAlias (Max (Col nm_col_num)) ''valor_final''])"

subsection \<open>Utilities\<close>

text \<open>
  \<^verbatim>\<open>renomear_cols\<close> copies the column names, overwrites the copy position by position
  (the value at the position of the first key equal to the name, and the name itself
  when \<^verbatim>\<open>index\<close> raises), and selects each column under its entry of the copy.
\<close>

fun index_of :: "'a list \<Rightarrow> 'a \<Rightarrow> nat option" where
  "index_of [] x = None"
| "index_of (y # ys) x = (if y = x then Some 0 else map_option Suc (index_of ys x))"

definition rename_step ::
  "(string \<times> string) list \<Rightarrow> string list \<Rightarrow> nat \<times> string \<Rightarrow> string list" where
  "rename_step dict_cols cols_final ic =
     (case ic of (i, c) \<Rightarrow>
        (case index_of (map fst dict_cols) c of
           Some j \<Rightarrow> cols_final[i := map snd dict_cols ! j]
         | None \<Rightarrow> cols_final[i := c]))"

definition renomear_cols ::
  "engine \<Rightarrow> environment \<Rightarrow> dataframe \<Rightarrow> (string \<times> string) list \<Rightarrow> error + pyobj" where
  "renomear_cols eng env df dict_cols =
     (let cols_final = foldl (rename_step dict_cols) (columns df) (enumerate 0 (columns df))
      in return_df
           (select eng df
              (map (\<lambda>(c_antes, c_depois). Alias (Col c_antes) c_depois)
                 (zip (columns df) cols_final))))"

definition remover_cols_hudi :: "engine \<Rightarrow> environment \<Rightarrow> dataframe \<Rightarrow> error + pyobj" where
  "remover_cols_hudi eng env df = return_df (select eng df (map Col (drop 5 (columns df))))"

definition renomear_cols_para_minusculo ::
  "engine \<Rightarrow> environment \<Rightarrow> dataframe \<Rightarrow> error + pyobj" where
  "renomear_cols_para_minusculo eng env df =
     return_df
       (select eng df (map (\<lambda>df_col. Alias (Col df_col) (lower df_col)) (columns df)))"

text \<open>
  \<^verbatim>\<open>obter_pct\<close> builds one expression per listed column; in each, the total crosses
  the bridge to the engine as the divisor.
\<close>

definition pct_expr :: "int \<Rightarrow> string \<Rightarrow> error + expr" where
  "pct_expr total' c =
     and_then (py_long total')
       (\<lambda>t. Inr (Alias (Round (Div (Mul (Col c) (Lit (IntV 100))) (Lit (IntV t))) 2) c))"

definition obter_pct ::
  "engine \<Rightarrow> environment \<Rightarrow> dataframe \<Rightarrow> string list \<Rightarrow> int \<Rightarrow> error + pyobj" where
  "obter_pct eng env df lst_nm_cols total' =
     return_df
       (and_then (sequence (map (pct_expr total') lst_nm_cols)) (\<lambda>es. select eng df es))"

text \<open>
  The formatter is called with the number and the currency only, so it formats for
  its default locale.
\<close>

definition formatar_cols_moeda ::
  "engine \<Rightarrow> environment \<Rightarrow> dataframe \<Rightarrow> string list \<Rightarrow> error + pyobj" where
  "formatar_cols_moeda eng env df lst_cols_moeda =
     (let format_currency_udf = Udf (\<lambda>a. format_currency eng a ''BRL'' (default_locale env));
          lst_cols_rest = filter (\<lambda>c. c \<notin> set lst_cols_moeda) (columns df)
      in return_df
           (select eng df
              (map Col lst_cols_rest @
               map (\<lambda>c. Alias (format_currency_udf (Col c)) c) lst_cols_moeda)))"

definition formatar_cols_decimal ::
  "engine \<Rightarrow> environment \<Rightarrow> dataframe \<Rightarrow> string list \<Rightarrow> int option \<Rightarrow> error + pyobj" where
  "formatar_cols_decimal eng env df lst_cols_decimal n_digitos =
     (let n = (case n_digitos of None \<Rightarrow> 2 | Some k \<Rightarrow> k);
          lst_cols_rest = filter (\<lambda>c. c \<notin> set lst_cols_decimal) (columns df)
      in return_df
           (and_then
              (select eng df
                 (map Col lst_cols_rest @
                  map (\<lambda>c. Alias (Cast (Col c) (DecimalType 18 n)) c) lst_cols_decimal))
              (\<lambda>d. select eng d (map Col (columns df)))))"

definition formatar_cols_float ::
  "engine \<Rightarrow> environment \<Rightarrow> dataframe \<Rightarrow> string list \<Rightarrow> error + pyobj" where
  "formatar_cols_float eng env df lst_cols_float =
     (let lst_cols_rest = filter (\<lambda>c. c \<notin> set lst_cols_float) (columns df)
      in return_df
           (and_then
              (select eng df
                 (map Col lst_cols_rest @
                  map (\<lambda>c. Alias (Cast (Col c) FloatType) c) lst_cols_float))
              (\<lambda>d. select eng d (map Col (columns df)))))"

definition formatar_cols_int ::
  "engine \<Rightarrow> environment \<Rightarrow> dataframe \<Rightarrow> string list \<Rightarrow> error + pyobj" where
  "formatar_cols_int eng env df lst_cols_int =
     (let lst_cols_rest = filter (\<lambda>c. c \<notin> set lst_cols_int) (columns df)
      in return_df
           (select eng df
              (map Col lst_cols_rest @ map (\<lambda>c. Cast (Col c) IntegerType) lst_cols_int)))"

definition formatar_cols_zeros_a_esquerda ::
  "engine \<Rightarrow> environment \<Rightarrow> dataframe \<Rightarrow> string list \<Rightarrow> int \<Rightarrow> error + pyobj" where
  "formatar_cols_zeros_a_esquerda eng env df lst_cols_str tam_pad =
     (let cols_df = columns df;
          lst_cols_rest = filter (\<lambda>c. c \<notin> set lst_cols_str) cols_df
      in return_df
           (and_then
              (select eng df
                 (map Col lst_cols_rest @
                  map (\<lambda>c. Alias (Call ''lpad'' (Col c) [IntV tam_pad, StrV ''0'']) c)
                    lst_cols_str))
              (\<lambda>d. select eng d (map Col cols_df))))"

definition remover_espacos_extra ::
  "engine \<Rightarrow> environment \<Rightarrow> dataframe \<Rightarrow> string list \<Rightarrow> error + pyobj" where
  "remover_espacos_extra eng env df lst_nm_cols =
     (let lst_cols_rest = filter (\<lambda>c. c \<notin> set lst_nm_cols) (columns df)
      in return_df
           (select eng df
              (map Col lst_cols_rest @
               map (\<lambda>c. Alias (Call ''trim'' (Col c) []) c) lst_nm_cols)))"

definition agrupar ::
  "engine \<Rightarrow> environment \<Rightarrow> dataframe \<Rightarrow> cols_arg \<Rightarrow> string list option \<Rightarrow>
   string list option \<Rightarrow> string list option \<Rightarrow> string list option \<Rightarrow> error + pyobj" where
  "agrupar eng env df chv_agrup lst_cols_conta lst_cols_soma lst_cols_max lst_cols_min =
     (let conta = (case lst_cols_conta of None \<Rightarrow> [] | Some l \<Rightarrow> l);
          soma = (case lst_cols_soma of None \<Rightarrow> [] | Some l \<Rightarrow> l);
          maxs = (case lst_cols_max of None \<Rightarrow> [] | Some l \<Rightarrow> l);
          mins = (case lst_cols_min of None \<Rightarrow> [] | Some l \<Rightarrow> l)
      in return_df
           (groupBy_agg eng df (map Col (cols_list chv_agrup))
              (map (\<lambda>c. AggAlias (Count (Col c)) (''cont_'' @ c)) conta @
               map (\<lambda>c. AggAlias (Sum (Col c)) (''soma_'' @ c)) soma @
               map (\<lambda>c. AggAlias (Max (Col c)) (''max_'' @ c)) maxs @
               map (\<lambda>c. AggAlias (Min (Col c)) (''min_'' @ c)) mins)))"

definition mostrar_visao_geral ::
  "engine \<Rightarrow> environment \<Rightarrow> dataframe \<Rightarrow> string \<Rightarrow> int option \<Rightarrow>
   string list \<times> (error + pyobj)" where
  "mostrar_visao_geral eng env df nm_df tam_df =
     (let tam = (case tam_df of None \<Rightarrow> count_df df | Some t \<Rightarrow> t)
      in ([''Esquema de dados da base de '' @ nm_df @ '':''] @
          schema_lines eng df @
          [''Tamanho da base de '' @ nm_df @ '':'',
           ''('' @ str_int tam @ '','' @ str_int (int (length (columns df))) @ '')'',
           [CHR 0x0A] @ ''Visualizacao da base de '' @ nm_df @ '':''] @
          show_lines eng 5 df,
          Inr PyNone))"

definition mostrar_teste_granularidade ::
  "engine \<Rightarrow> environment \<Rightarrow> dataframe \<Rightarrow> cols_arg \<Rightarrow> int option \<Rightarrow>
   string list \<times> (error + pyobj)" where
  "mostrar_teste_granularidade eng env df cols_chv tam_df =
     (let tam = (case tam_df of None \<Rightarrow> count_df df | Some t \<Rightarrow> t);
          head_lines = [''Tamanho da base:'', str_int tam]
      in case select eng df (map Col (cols_list cols_chv)) of
           Inl e \<Rightarrow> (head_lines, Inl e)
         | Inr d \<Rightarrow>
             (let qtd_dist = count_df (distinct_df d)
              in (head_lines @
                  [''Quantidade de combinacoes de chave distintas:'', str_int qtd_dist,
                   (if tam = qtd_dist
                    then [CHR 0x0A] @ str_cols cols_chv @ '' eh a chave da tabela''
                    else [CHR 0x0A] @ str_cols cols_chv @ '' nao eh a chave da tabela'')],
                  Inr PyNone)))"

text \<open>
  A dictionary is the list of its items in insertion order. \<^verbatim>\<open>orderBy_dict\<close> first
  walks the values and raises at the first that is neither \<^verbatim>\<open>asc\<close> nor
  \<^verbatim>\<open>desc\<close>; then it builds one sort order per item, and the comprehension's last
  branch gives \<^verbatim>\<open>None\<close>, which \<^verbatim>\<open>orderBy\<close> would refuse.
\<close>

fun check_orders :: "string list \<Rightarrow> error option" where
  "check_orders [] = None"
| "check_orders (order # rest) =
     (if order \<noteq> ''asc'' \<and> order \<noteq> ''desc''
      then Some (ValueError (''Ordem '' @ order @ '' nao identificada''))
      else check_orders rest)"

definition order_item :: "string \<times> string \<Rightarrow> sortorder option" where
  "order_item item =
     (case item of (coluna, ordem) \<Rightarrow>
        if ordem = ''asc'' then Some (Asc (Col coluna))
        else if ordem = ''desc'' then Some (Asc (Col coluna))
        else None)"

definition orderBy_dict ::
  "engine \<Rightarrow> environment \<Rightarrow> dataframe \<Rightarrow> (string \<times> string) list \<Rightarrow> error + pyobj" where
  "orderBy_dict eng env df d_order =
     (case check_orders (map snd d_order) of
        Some e \<Rightarrow> Inl e
      | None \<Rightarrow>
          (case those (map order_item d_order) of
             None \<Rightarrow> Inl (TypeError ''a sort order is None'')
           | Some orders \<Rightarrow> return_df (orderBy eng df orders)))"

definition obter_top_valores ::
  "engine \<Rightarrow> environment \<Rightarrow> dataframe \<Rightarrow> string \<Rightarrow> int \<Rightarrow> string list \<Rightarrow> error + pyobj" where
  "obter_top_valores eng env df nm_col_vlr top_n lst_cols_desc =
     return_df
       (and_then (select eng df (map Col lst_cols_desc @ [Col nm_col_vlr]))
          (\<lambda>d1. and_then (orderBy eng d1 [Desc (Col nm_col_vlr)]) (\<lambda>d2. limit d2 top_n)))"

subsection \<open>Missing values, zeros and distinct values\<close>

definition preencher_nulos ::
  "engine \<Rightarrow> environment \<Rightarrow> dataframe \<Rightarrow> val \<Rightarrow> cols_arg option \<Rightarrow> error + pyobj" where
  "preencher_nulos eng env df vlr_a_preencher nm_cols_a_preencher =
     return_df
       (fillna_fn eng vlr_a_preencher
          (case nm_cols_a_preencher of None \<Rightarrow> columns df | Some cs \<Rightarrow> cols_list cs) df)"

text \<open>
  In \<^verbatim>\<open>when(isnull(c), c)\<close> the condition is on the column named \<open>c\<close> and the value is
  the string \<open>c\<close> itself, a literal: the count is of the rows where the condition holds.
\<close>

definition obter_qtd_ausentes ::
  "engine \<Rightarrow> environment \<Rightarrow> dataframe \<Rightarrow> string list option \<Rightarrow> error + pyobj" where
  "obter_qtd_ausentes eng env df lst_nm_cols =
     (let lst = (case lst_nm_cols of None \<Rightarrow> columns df | Some l \<Rightarrow> l)
      in return_df
           (agg eng df
              (map (\<lambda>c. AggAlias (Count (When (IsNull (Col c)) (Lit (StrV c)))) c) lst)))"

definition obter_pct_ausentes ::
  "engine \<Rightarrow> environment \<Rightarrow> dataframe \<Rightarrow> string list option \<Rightarrow> int option \<Rightarrow>
   error + pyobj" where
  "obter_pct_ausentes eng env df lst_nm_cols tam_df =
     (let lst = (case lst_nm_cols of None \<Rightarrow> columns df | Some l \<Rightarrow> l);
          tam = (case tam_df of None \<Rightarrow> count_df df | Some t \<Rightarrow> t)
      in return_df
           (and_then (transform df (\<lambda>df. obter_qtd_ausentes eng env df (Some lst)))
              (\<lambda>d. transform d (\<lambda>df. obter_pct eng env df lst tam))))"

definition obter_qtd_zeros ::
  "engine \<Rightarrow> environment \<Rightarrow> dataframe \<Rightarrow> string list \<Rightarrow> error + pyobj" where
  "obter_qtd_zeros eng env df lst_nm_cols =
     return_df
       (agg eng df
          (map (\<lambda>c. AggAlias (Count (When (EqNullSafe (Col c) (Lit (IntV 0))) (Lit (StrV c)))) c)
             lst_nm_cols))"

definition obter_pct_zeros ::
  "engine \<Rightarrow> environment \<Rightarrow> dataframe \<Rightarrow> string list \<Rightarrow> int option \<Rightarrow> error + pyobj" where
  "obter_pct_zeros eng env df lst_nm_cols tam_df =
     (let tam = (case tam_df of None \<Rightarrow> count_df df | Some t \<Rightarrow> t)
      in return_df
           (and_then (transform df (\<lambda>df. obter_qtd_zeros eng env df lst_nm_cols))
              (\<lambda>d. transform d (\<lambda>df. obter_pct eng env df lst_nm_cols tam))))"

definition obter_qtd_distintos ::
  "engine \<Rightarrow> environment \<Rightarrow> dataframe \<Rightarrow> string list option \<Rightarrow> error + pyobj" where
  "obter_qtd_distintos eng env df lst_nm_cols =
     (let lst = (case lst_nm_cols of None \<Rightarrow> columns df | Some l \<Rightarrow> l)
      in return_df (agg eng df (map (\<lambda>c. AggAlias (CountDistinct (Col c)) c) lst)))"

definition obter_pct_distintos ::
  "engine \<Rightarrow> environment \<Rightarrow> dataframe \<Rightarrow> string list option \<Rightarrow> int option \<Rightarrow>
   error + pyobj" where
  "obter_pct_distintos eng env df lst_nm_cols tam_df =
     (let lst = (case lst_nm_cols of None \<Rightarrow> columns df | Some l \<Rightarrow> l);
          tam = (case tam_df of None \<Rightarrow> count_df df | Some t \<Rightarrow> t)
      in return_df
           (and_then (transform df (\<lambda>df. obter_qtd_distintos eng env df (Some lst)))
              (\<lambda>d. transform d (\<lambda>df. obter_pct eng env df lst tam))))"

definition selecionar_cols_distintas ::
  "engine \<Rightarrow> environment \<Rightarrow> dataframe \<Rightarrow> cols_arg \<Rightarrow> error + pyobj" where
  "selecionar_cols_distintas eng env df cols_chave =
     return_df
       (and_then (select eng df (map Col (cols_list cols_chave))) (\<lambda>d. Inr (distinct_df d)))"

subsection \<open>Frequency tables and derived columns\<close>

text \<open>
  \<^verbatim>\<open>obter_tab_freq\<close> prints its title and then builds the table step by step; the
  total crosses the bridge to the engine when the expression of the relative
  frequency is built, after the grouping and the renaming.
\<close>

definition obter_tab_freq ::
  "engine \<Rightarrow> environment \<Rightarrow> dataframe \<Rightarrow> cols_arg \<Rightarrow> int option \<Rightarrow>
   string list \<times> (error + pyobj)" where
  "obter_tab_freq eng env df nm_col tam_df =
     (let tam = (case tam_df of None \<Rightarrow> count_df df | Some t \<Rightarrow> t)
      in ([''Tabela de frequencias''],
          return_df
            (and_then (groupBy_count eng df (map Col (cols_list nm_col)))
               (\<lambda>d1. and_then (py_long tam)
                  (\<lambda>t. and_then
                     (withColumn eng (withColumnRenamed d1 ''count'' ''freq_absoluta'')
                        ''freq_relativa (%)''
                        (Round (Div (Mul (Col ''freq_absoluta'') (Lit (IntV 100)))
                           (Lit (IntV t))) 2))
                     (\<lambda>d2. orderBy eng d2 [Desc (Col ''freq_absoluta'')]))))))"

definition obter_tab_freq_periodo ::
  "engine \<Rightarrow> environment \<Rightarrow> dataframe \<Rightarrow> string \<Rightarrow> string \<Rightarrow> int option \<Rightarrow>
   error + pyobj" where
  "obter_tab_freq_periodo eng env df nm_col_dat periodo tam_df =
     (let tam = (case tam_df of None \<Rightarrow> count_df df | Some t \<Rightarrow> t)
      in return_df
           (and_then
              (py_lookup
                 [(''d'', Cast (Col nm_col_dat) DateType),
                  (''m'', Call ''date_format'' (Col nm_col_dat) [StrV ''yyyyMM'']),
                  (''a'', Call ''year'' (Col nm_col_dat) [])] periodo)
              (\<lambda>funcao_agregamento. and_then
                 (py_lookup [(''d'', ''data''), (''m'', ''mes''), (''a'', ''ano'')] periodo)
                 (\<lambda>periodo'. and_then
                    (groupBy_count eng df [Alias funcao_agregamento periodo'])
                    (\<lambda>d1. and_then (py_long tam)
                       (\<lambda>t. and_then
                          (withColumn eng (withColumnRenamed d1 ''count'' ''qtd_ocorrencias'')
                             ''%''
                             (Round (Div (Mul (Col ''qtd_ocorrencias'') (Lit (IntV 100)))
                                (Lit (IntV t))) 2))
                          (\<lambda>d2. orderBy eng d2 [Asc (Col periodo')])))))))"

definition criar_col_qtd_digitos ::
  "engine \<Rightarrow> environment \<Rightarrow> dataframe \<Rightarrow> string \<Rightarrow> error + pyobj" where
  "criar_col_qtd_digitos eng env df nm_col =
     return_df
       (withColumn eng df ''qtd_digitos'' (Call ''length'' (Cast (Col nm_col) StringType) []))"

subsection \<open>Reading a dataframe by column name\<close>

text \<open>
  To state what the functions compute: whether a name denotes a column of a dataframe
  (it resolves), the position of the column it denotes, and the cells under it.
\<close>

definition has_column :: "dataframe \<Rightarrow> string \<Rightarrow> bool" where
  "has_column df c = (case resolve (columns df) c of Inr i \<Rightarrow> True | Inl e \<Rightarrow> False)"

definition col_index :: "dataframe \<Rightarrow> string \<Rightarrow> nat" where
  "col_index df c = (case resolve (columns df) c of Inr i \<Rightarrow> i | Inl e \<Rightarrow> 0)"

definition column_cells :: "dataframe \<Rightarrow> string \<Rightarrow> val list" where
  "column_cells df c = map (\<lambda>r. r ! col_index df c) (rows df)"

definition is_zero :: "val \<Rightarrow> bool" where
  "is_zero v = (v = IntV 0 \<or> v = NumV 0)"

definition is_date :: "val \<Rightarrow> bool" where
  "is_date v = (case v of DateV d \<Rightarrow> True | _ \<Rightarrow> False)"

definition is_numeric :: "val \<Rightarrow> bool" where
  "is_numeric v = (case v of IntV i \<Rightarrow> True | NumV q \<Rightarrow> True | _ \<Rightarrow> False)"

text \<open>The cells of a row under a list of column names, and the integer in a cell.\<close>

definition cells_of :: "dataframe \<Rightarrow> string list \<Rightarrow> row \<Rightarrow> row" where
  "cells_of df names r = map (\<lambda>c. r ! col_index df c) names"

definition int_cell :: "val \<Rightarrow> int" where
  "int_cell v = (case v of IntV i \<Rightarrow> i | _ \<Rightarrow> 0)"

text \<open>How many rows of a dataframe have the given cells under the given columns.\<close>

definition freq_of :: "dataframe \<Rightarrow> string list \<Rightarrow> row \<Rightarrow> int" where
  "freq_of df names key = int (length (filter (\<lambda>r. cells_of df names r = key) (rows df)))"

text \<open>The name a column has after \<^verbatim>\<open>renomear_cols\<close>, by the dictionary.\<close>

definition renamed :: "(string \<times> string) list \<Rightarrow> string \<Rightarrow> string" where
  "renamed dict_cols c = (case map_of dict_cols c of Some n \<Rightarrow> n | None \<Rightarrow> c)"





text \<open>
  An engine to run examples on: it is in ANSI mode, its casts (other than to a date)
  and functions give null, its printers print nothing, its summary and its filling of
  nulls leave a dataframe as it is, and its currency formatter writes the currency
  code, an integer and two decimals, after a comma for the locale \<^verbatim>\<open>pt_BR\<close> and
  after a point for any other.
\<close>

definition example_engine :: engine where
  "example_engine =
     \<lparr>ansi_enabled = True,
      cast_fn = (\<lambda>t v. Null),
      sql_fn = (\<lambda>f vs. Null),
      summary_fn = (\<lambda>df. df),
      fillna_fn = (\<lambda>v cs df. Inr df),
      schema_lines = (\<lambda>df. []),
      show_lines = (\<lambda>n df. []),
      format_currency =
        (\<lambda>v c l. case v of
                    IntV i \<Rightarrow>
                      StrV (c @ '' '' @ str_int i @ (if l = ''pt_BR'' then '',00'' else ''.00''))
                  | _ \<Rightarrow> Null)\<rparr>"

definition example_environment :: environment where
  "example_environment =
     \<lparr>clock = \<lparr>dt_date = (2024, 5, 17), dt_microseconds = 0\<rparr>, default_locale = ''pt_BR''\<rparr>"

subsection \<open>The module as a whole\<close>

text \<open>
  A call of a public function of the module with its arguments, and what a call does
  in an environment: the lines it prints, and the object it returns or the error it
  raises. A parameter with the default \<^verbatim>\<open>None\<close> is an option. A function that
  has no \<^verbatim>\<open>print\<close> prints nothing.
\<close>

datatype call =
    Criar_col_dat_hoje dataframe string
  | Filtrar_ultimos_n_meses dataframe string int
  | Obter_data_inicial dataframe string int
  | Obter_distrib_data dataframe "string list"
  | Obter_distrib dataframe cols_arg
  | Obter_intervalo dataframe string
  | Renomear_cols dataframe "(string \<times> string) list"
  | Remover_cols_hudi dataframe
  | Renomear_cols_para_minusculo dataframe
  | Obter_pct dataframe "string list" int
  | Formatar_cols_moeda dataframe "string list"
  | Formatar_cols_decimal dataframe "string list" "int option"
  | Formatar_cols_float dataframe "string list"
  | Formatar_cols_int dataframe "string list"
  | Formatar_cols_zeros_a_esquerda dataframe "string list" int
  | Remover_espacos_extra dataframe "string list"
  | Agrupar dataframe cols_arg "string list option" "string list option"
      "string list option" "string list option"
  | Mostrar_visao_geral dataframe string "int option"
  | Mostrar_teste_granularidade dataframe cols_arg "int option"
  | OrderBy_dict dataframe "(string \<times> string) list"
  | Obter_top_valores dataframe string int "string list"
  | Preencher_nulos dataframe val "cols_arg option"
  | Obter_qtd_ausentes dataframe "string list option"
  | Obter_pct_ausentes dataframe "string list option" "int option"
  | Obter_qtd_zeros dataframe "string list"
  | Obter_pct_zeros dataframe "string list" "int option"
  | Obter_qtd_distintos dataframe "string list option"
  | Obter_pct_distintos dataframe "string list option" "int option"
  | Selecionar_cols_distintas dataframe cols_arg
  | Obter_tab_freq dataframe cols_arg "int option"
  | Obter_tab_freq_periodo dataframe string string "int option"
  | Criar_col_qtd_digitos dataframe string

type_synonym outcome = "string list \<times> (error + pyobj)"

definition silent :: "error + pyobj \<Rightarrow> outcome" where
  "silent m = ([], m)"

fun run :: "engine \<Rightarrow> environment \<Rightarrow> call \<Rightarrow> outcome" where
  "run eng env (Criar_col_dat_hoje df c) = silent (criar_col_dat_hoje eng env df c)"
| "run eng env (Filtrar_ultimos_n_meses df c n) = silent (filtrar_ultimos_n_meses eng env df c n)"
| "run eng env (Obter_data_inicial df c n) = silent (obter_data_inicial eng env df c n)"
| "run eng env (Obter_distrib_data df cs) = silent (obter_distrib_data eng env df cs)"
| "run eng env (Obter_distrib df cs) = silent (obter_distrib eng env df cs)"
| "run eng env (Obter_intervalo df c) = silent (obter_intervalo eng env df c)"
| "run eng env (Renomear_cols df d) = silent (renomear_cols eng env df d)"
| "run eng env (Remover_cols_hudi df) = silent (remover_cols_hudi eng env df)"
| "run eng env (Renomear_cols_para_minusculo df) =
     silent (renomear_cols_para_minusculo eng env df)"
| "run eng env (Obter_pct df cs t) = silent (obter_pct eng env df cs t)"
| "run eng env (Formatar_cols_moeda df cs) = silent (formatar_cols_moeda eng env df cs)"
| "run eng env (Formatar_cols_decimal df cs n) = silent (formatar_cols_decimal eng env df cs n)"
| "run eng env (Formatar_cols_float df cs) = silent (formatar_cols_float eng env df cs)"
| "run eng env (Formatar_cols_int df cs) = silent (formatar_cols_int eng env df cs)"
| "run eng env (Formatar_cols_zeros_a_esquerda df cs n) =
     silent (formatar_cols_zeros_a_esquerda eng env df cs n)"
| "run eng env (Remover_espacos_extra df cs) = silent (remover_espacos_extra eng env df cs)"
| "run eng env (Agrupar df k c1 c2 c3 c4) = silent (agrupar eng env df k c1 c2 c3 c4)"
| "run eng env (Mostrar_visao_geral df n t) = mostrar_visao_geral eng env df n t"
| "run eng env (Mostrar_teste_granularidade df cs t) =
     mostrar_teste_granularidade eng env df cs t"
| "run eng env (OrderBy_dict df d) = silent (orderBy_dict eng env df d)"
| "run eng env (Obter_top_valores df c n cs) = silent (obter_top_valores eng env df c n cs)"
| "run eng env (Preencher_nulos df v cs) = silent (preencher_nulos eng env df v cs)"
| "run eng env (Obter_qtd_ausentes df cs) = silent (obter_qtd_ausentes eng env df cs)"
| "run eng env (Obter_pct_ausentes df cs t) = silent (obter_pct_ausentes eng env df cs t)"
| "run eng env (Obter_qtd_zeros df cs) = silent (obter_qtd_zeros eng env df cs)"
| "run eng env (Obter_pct_zeros df cs t) = silent (obter_pct_zeros eng env df cs t)"
| "run eng env (Obter_qtd_distintos df cs) = silent (obter_qtd_distintos eng env df cs)"
| "run eng env (Obter_pct_distintos df cs t) = silent (obter_pct_distintos eng env df cs t)"
| "run eng env (Selecionar_cols_distintas df cs) =
     silent (selecionar_cols_distintas eng env df cs)"
| "run eng env (Obter_tab_freq df cs t) = obter_tab_freq eng env df cs t"
| "run eng env (Obter_tab_freq_periodo df c p t) =
     silent (obter_tab_freq_periodo eng env df c p t)"
| "run eng env (Criar_col_qtd_digitos df c) = silent (criar_col_qtd_digitos eng env df c)"

fun is_criar_col_dat_hoje :: "call \<Rightarrow> bool" where
  "is_criar_col_dat_hoje (Criar_col_dat_hoje df c) = True"
| "is_criar_col_dat_hoje other = False"

fun is_formatar_cols_moeda :: "call \<Rightarrow> bool" where
  "is_formatar_cols_moeda (Formatar_cols_moeda df cs) = True"
| "is_formatar_cols_moeda other = False"

fun is_obter_data_inicial :: "call \<Rightarrow> bool" where
  "is_obter_data_inicial (Obter_data_inicial df c n) = True"
| "is_obter_data_inicial other = False"

section \<open>Properties\<close>

subsection \<open>Errors of the engine\<close>

lemma and_then_Inr [simp]: "and_then (Inr x) f = f x"
  by (simp add: and_then_def)

lemma and_then_Inl [simp]: "and_then (Inl e) f = Inl e"
  by (simp add: and_then_def)

lemma return_df_Inr [simp]: "return_df (Inr d) = Inr (PyDataFrame d)"
  by (simp add: return_df_def)

lemma return_df_Inl [simp]: "return_df (Inl e) = Inl e"
  by (simp add: return_df_def)

lemma return_df_frame: "return_df m = Inr r \<Longrightarrow> \<exists>d. r = PyDataFrame d"
  by (cases m) auto

lemma bind_expr_error:
  "bind_expr eng cols e = Inl err \<Longrightarrow> \<exists>m. err = AnalysisException m"
  by (induction e arbitrary: err)
     (auto simp: lift1_def lift2_def resolve_def split: sum.splits list.splits)

lemma sequence_Inl: "sequence ms = Inl err \<Longrightarrow> Inl err \<in> set ms"
  by (induction ms) (auto split: sum.splits)

lemma sequence_Inr_ex: "(\<And>m. m \<in> set ms \<Longrightarrow> \<exists>x. m = Inr x) \<Longrightarrow> \<exists>xs. sequence ms = Inr xs"
proof (induction ms)
  case Nil
  then show ?case by simp
next
  case (Cons m ms)
  then obtain x xs where "m = Inr x" "sequence ms = Inr xs"
    by (metis list.set_intros(1) list.set_intros(2))
  then show ?case by simp
qed

lemma sequence_map_Inr:
  "(\<And>x. x \<in> set xs \<Longrightarrow> f x = Inr (g x)) \<Longrightarrow> sequence (map f xs) = Inr (map g xs)"
  by (induction xs) auto

lemma on_rows_Inr:
  "(\<And>r. r \<in> set rs \<Longrightarrow> f r = Inr (g r)) \<Longrightarrow> on_rows f rs = Inr (map g rs)"
  unfolding on_rows_def by (rule sequence_map_Inr)

lemma bind_order_error:
  "bind_order eng cols so = Inl err \<Longrightarrow> \<exists>m. err = AnalysisException m"
  by (cases so) (auto split: sum.splits dest: bind_expr_error)

text \<open>Sorting by columns fails only when a name does not resolve.\<close>

lemma bind_order_cols:
  "sequence (map (bind_order eng cols) (map (\<lambda>item. Asc (Col (fst item))) d)) = Inr ks \<Longrightarrow>
   k \<in> set ks \<Longrightarrow> \<exists>v. snd k r = Inr v"
  by (induction d arbitrary: ks) (auto split: sum.splits)

lemma orderBy_cols_error:
  assumes "orderBy eng df (map (\<lambda>item. Asc (Col (fst item))) d) = Inl err"
  shows "\<exists>m. err = AnalysisException m"
proof (cases "sequence (map (bind_order eng (columns df)) (map (\<lambda>item. Asc (Col (fst item))) d))")
  case (Inl e)
  then have "e = err" using assms by (simp add: orderBy_def)
  with Inl have "Inl err \<in> set (map (bind_order eng (columns df))
                    (map (\<lambda>item. Asc (Col (fst item))) d))"
    by (intro sequence_Inl) simp
  then have "Inl err \<in> bind_order eng (columns df) ` set (map (\<lambda>item. Asc (Col (fst item))) d)"
    by (simp only: set_map)
  then obtain so where "bind_order eng (columns df) so = Inl err"
    by (elim imageE) (rule that, rule sym)
  then show ?thesis by (rule bind_order_error)
next
  case (Inr ks)
  have "\<exists>vs. sequence (map (\<lambda>k. snd k r) ks) = Inr vs" for r
    by (rule sequence_Inr_ex) (use bind_order_cols [OF Inr] in auto)
  then have "\<exists>kss. on_rows (\<lambda>r. sequence (map (\<lambda>k. snd k r) ks)) (rows df) = Inr kss"
    unfolding on_rows_def by (intro sequence_Inr_ex) auto
  then show ?thesis using assms Inr by (auto simp: orderBy_def)
qed

subsection \<open>Sorting by a dictionary\<close>

lemma check_orders_Some:
  "check_orders os = Some e \<Longrightarrow> \<exists>m. e = ValueError m"
  by (induction os) (auto split: if_splits)

lemma check_orders_None:
  "(check_orders os = None) = (\<not> list_ex (\<lambda>order. order \<noteq> ''asc'' \<and> order \<noteq> ''desc'') os)"
  by (induction os) auto

lemma those_order_item:
  "\<not> list_ex (\<lambda>order. order \<noteq> ''asc'' \<and> order \<noteq> ''desc'') (map snd d) \<Longrightarrow>
   those (map order_item d) = Some (map (\<lambda>item. Asc (Col (fst item))) d)"
  by (induction d) (auto simp: order_item_def)

text \<open>
  Claim C1 says that \<^verbatim>\<open>orderBy_dict\<close> sorts descending by a column mapped to
  \<^verbatim>\<open>desc\<close>. The comprehension builds \<^verbatim>\<open>asc(col(coluna))\<close> in both branches, so on
  the column \<open>x\<close> with the cells 2, 1, 3 and the dictionary \<open>{x: desc}\<close> the result is
  in ascending order 1, 2, 3, where the claim asks for 3, 2, 1.
\<close>

theorem orderBy_dict_desc_sorts_ascending:
  "orderBy_dict example_engine example_environment
     \<lparr>columns = [''x''], rows = [[IntV 2], [IntV 1], [IntV 3]]\<rparr> [(''x'', ''desc'')] =
   Inr (PyDataFrame \<lparr>columns = [''x''], rows = [[IntV 1], [IntV 2], [IntV 3]]\<rparr>)"
  by code_simp

text \<open>
  Claim C10: \<^verbatim>\<open>orderBy_dict\<close> raises \<^verbatim>\<open>ValueError\<close> exactly when some value of the
  dictionary is neither \<^verbatim>\<open>asc\<close> nor \<^verbatim>\<open>desc\<close>, whatever the dataframe is; and then
  it returns nothing and its outcome does not depend on the dataframe, on the engine or
  on the environment, since it raises before any ordering is built or applied.
\<close>

theorem orderBy_dict_raises:
  "((\<exists>msg. orderBy_dict eng env df d = Inl (ValueError msg)) =
      list_ex (\<lambda>order. order \<noteq> ''asc'' \<and> order \<noteq> ''desc'') (map snd d)) \<and>
   (list_ex (\<lambda>order. order \<noteq> ''asc'' \<and> order \<noteq> ''desc'') (map snd d) \<longrightarrow>
      (\<forall>r. orderBy_dict eng env df d \<noteq> Inr r) \<and>
      (\<forall>eng' env' df'. orderBy_dict eng' env' df' d = orderBy_dict eng env df d))"
proof (cases "check_orders (map snd d)")
  case None
  then have ok: "\<not> list_ex (\<lambda>order. order \<noteq> ''asc'' \<and> order \<noteq> ''desc'') (map snd d)"
    by (simp add: check_orders_None)
  have eq: "orderBy_dict eng env df d =
        return_df (orderBy eng df (map (\<lambda>item. Asc (Col (fst item))) d))"
    using None those_order_item [OF ok] by (simp add: orderBy_dict_def)
  have "\<not> (\<exists>msg. orderBy_dict eng env df d = Inl (ValueError msg))"
  proof
    assume "\<exists>msg. orderBy_dict eng env df d = Inl (ValueError msg)"
    then obtain msg where
      "return_df (orderBy eng df (map (\<lambda>item. Asc (Col (fst item))) d)) = Inl (ValueError msg)"
      using eq by auto
    then have "orderBy eng df (map (\<lambda>item. Asc (Col (fst item))) d) = Inl (ValueError msg)"
      by (cases "orderBy eng df (map (\<lambda>item. Asc (Col (fst item))) d)") auto
    then show False by (auto dest: orderBy_cols_error)
  qed
  with ok show ?thesis by blast
next
  case (Some e)
  then have bad: "list_ex (\<lambda>order. order \<noteq> ''asc'' \<and> order \<noteq> ''desc'') (map snd d)"
    using check_orders_None [of "map snd d"] by auto
  obtain m where "e = ValueError m" using Some check_orders_Some by blast
  with Some have "\<And>eng' env' df'. orderBy_dict eng' env' df' d = Inl (ValueError m)"
    by (simp add: orderBy_dict_def)
  with bad show ?thesis by auto
qed

text \<open>
  The theorem at a dictionary whose second value is \<^verbatim>\<open>up\<close>: the call raises
  \<^verbatim>\<open>ValueError\<close> and returns nothing.
\<close>

theorem orderBy_dict_raises_witness:
  "list_ex (\<lambda>order. order \<noteq> ''asc'' \<and> order \<noteq> ''desc'')
     (map snd [(''x'', ''asc''), (''y'', ''up'')]) \<and>
   (\<exists>msg. orderBy_dict example_engine example_environment
       \<lparr>columns = [''x'', ''y''], rows = [[IntV 1, IntV 2]]\<rparr>
       [(''x'', ''asc''), (''y'', ''up'')] = Inl (ValueError msg)) \<and>
   (\<forall>r. orderBy_dict example_engine example_environment
       \<lparr>columns = [''x'', ''y''], rows = [[IntV 1, IntV 2]]\<rparr>
       [(''x'', ''asc''), (''y'', ''up'')] \<noteq> Inr r)"
proof -
  have bad: "list_ex (\<lambda>order. order \<noteq> ''asc'' \<and> order \<noteq> ''desc'')
      (map snd [(''x'', ''asc''), (''y'', ''up'')])"
    by simp
  show ?thesis
    using bad
      orderBy_dict_raises [of example_engine example_environment
        "\<lparr>columns = [''x'', ''y''], rows = [[IntV 1, IntV 2]]\<rparr>"
        "[(''x'', ''asc''), (''y'', ''up'')]"]
    by blast
qed

subsection \<open>Currency columns\<close>

text \<open>
  Claim C2 says that \<^verbatim>\<open>formatar_cols_moeda\<close> keeps the columns in the order of the
  input. The function selects the columns it leaves alone first and the formatted ones
  after them, and does not select the original order again as
  \<^verbatim>\<open>formatar_cols_decimal\<close> and \<^verbatim>\<open>formatar_cols_float\<close> do: on the columns
  \<open>preco, nome\<close> with \<open>preco\<close> to format, the result has the columns \<open>nome, preco\<close>.
\<close>

theorem formatar_cols_moeda_moves_columns:
  "formatar_cols_moeda example_engine example_environment
     \<lparr>columns = [''preco'', ''nome''], rows = [[IntV 5, StrV ''a'']]\<rparr> [''preco''] =
   Inr (PyDataFrame
          \<lparr>columns = [''nome'', ''preco''], rows = [[StrV ''a'', StrV ''BRL 5,00'']]\<rparr>)"
  by code_simp

subsection \<open>Resolving names, binding and aggregating\<close>

lemma on_rows_pure [simp]: "on_rows (\<lambda>r. Inr (h r)) rs = Inr (map h rs)"
  by (rule on_rows_Inr) simp

lemma sequence_pure [simp]: "sequence (map (\<lambda>x. Inr (h x)) xs) = Inr (map h xs)"
  by (rule sequence_map_Inr) simp

lemma filter_upt_eq: "i < n \<Longrightarrow> filter (\<lambda>j. j = i) [0..<n] = [i]"
  by (induction n) auto

lemma resolve_distinct:
  assumes d: "distinct (map lower cols)" and i: "i < length cols"
  shows "resolve cols (cols ! i) = Inr i"
proof -
  have "filter (\<lambda>j. same_name (cols ! j) (cols ! i)) [0..<length cols] =
        filter (\<lambda>j. j = i) [0..<length cols]"
  proof (rule filter_cong [OF refl])
    fix j assume "j \<in> set [0..<length cols]"
    then have j: "j < length cols" by simp
    have "(map lower cols ! j = map lower cols ! i) = (j = i)"
      using d i j by (simp add: nth_eq_iff_index_eq del: nth_map)
    then show "same_name (cols ! j) (cols ! i) = (j = i)"
      using i j by (simp add: same_name_def)
  qed
  then show ?thesis using i by (simp add: resolve_def filter_upt_eq)
qed

lemma resolve_member:
  assumes d: "distinct (map lower cols)" and c: "c \<in> set cols"
  shows "\<exists>i. resolve cols c = Inr i \<and> i < length cols \<and> cols ! i = c"
proof -
  from c obtain i where "i < length cols" "cols ! i = c" by (auto simp: in_set_conv_nth)
  then show ?thesis using resolve_distinct [OF d, of i] by auto
qed

lemma has_column_resolve:
  "has_column df c \<Longrightarrow> resolve (columns df) c = Inr (col_index df c)"
  by (auto simp: has_column_def col_index_def split: sum.splits)

lemma eq_null_safe_zero: "eq_null_safe v (IntV 0) = BoolV (is_zero v)"
  by (cases v) (auto simp: eq_null_safe_def is_zero_def as_num_def)

lemma count_val_when:
  "count_val (map (\<lambda>r. when_val (BoolV (P r)) (StrV c)) rs) = IntV (int (length (filter P rs)))"
  by (induction rs) (auto simp: count_val_def when_val_def)

lemma all_rows_no_keys: "map fst (filter (\<lambda>p. snd p = []) (zip rs (map (\<lambda>r. []) rs))) = rs"
  by (induction rs) auto

text \<open>
  An aggregation without keys gives one row, of the aggregates over all rows, when
  each aggregate is bound and computed without an error.
\<close>

lemma grouped_no_keys:
  assumes b: "\<And>a. a \<in> set aggs \<Longrightarrow> bind_agg eng (columns df) a = Inr (F a)"
    and v: "\<And>a. a \<in> set aggs \<Longrightarrow> F a (rows df) = Inr (G a)"
  shows "grouped eng df [] aggs = Inr \<lparr>columns = map agg_name aggs, rows = [map G aggs]\<rparr>"
proof -
  have 1: "sequence (map (bind_agg eng (columns df)) aggs) = Inr (map F aggs)"
    by (rule sequence_map_Inr) (rule b)
  have 2: "sequence (map ((\<lambda>g. g (rows df)) \<circ> F) aggs) = Inr (map G aggs)"
    by (rule sequence_map_Inr) (simp add: v)
  show ?thesis
    by (simp add: grouped_def group_rows_def 1 2 all_rows_no_keys)
qed

lemma agg_Inr:
  assumes "aggs \<noteq> []"
    and "\<And>a. a \<in> set aggs \<Longrightarrow> bind_agg eng (columns df) a = Inr (F a)"
    and "\<And>a. a \<in> set aggs \<Longrightarrow> F a (rows df) = Inr (G a)"
  shows "agg eng df aggs = Inr \<lparr>columns = map agg_name aggs, rows = [map G aggs]\<rparr>"
  using assms(1) grouped_no_keys [of aggs eng df F G, OF assms(2,3)]
  by (simp add: agg_def groupBy_agg_def)

lemma bind_count_zeros:
  assumes "has_column df c"
  shows "bind_agg eng (columns df)
           (AggAlias (Count (When (EqNullSafe (Col c) (Lit (IntV 0))) (Lit (StrV c)))) c) =
         Inr (\<lambda>rs. Inr (IntV (int (length (filter (\<lambda>r. is_zero (r ! col_index df c)) rs)))))"
  using has_column_resolve [OF assms]
  by (simp add: agg1_def lift2_def eq_null_safe_zero count_val_when)

subsection \<open>Counting zeros\<close>

text \<open>
  Claim C9 says that \<^verbatim>\<open>obter_qtd_zeros\<close> returns the counts of zeros for every list
  of names of numeric columns. It fails on the empty list: \<^verbatim>\<open>agg\<close> asserts that it is
  given at least one aggregate, so the call raises and returns no dataframe.
\<close>

theorem obter_qtd_zeros_empty_list_counterexample:
  "obter_qtd_zeros example_engine example_environment
     \<lparr>columns = [''a''], rows = [[IntV 0]]\<rparr> [] =
   Inl (AssertionError ''exprs should not be empty'')"
  by code_simp

text \<open>
  Claim C9 as amended: for every dataframe and every non-empty list of names of its
  numeric columns, \<^verbatim>\<open>obter_qtd_zeros\<close> returns a dataframe with the listed names as
  columns and a single row, in which the cell under each listed column is the number
  of rows whose cell in that column is the integer or the fractional number zero. A
  null cell is not zero and is not counted. The columns are numeric, as the claim has
  it: on a column of another type the engine would cast before it compares, which the
  model does not follow.
\<close>

theorem obter_qtd_zeros_counts:
  assumes ne: "lst_nm_cols \<noteq> []"
    and cols: "list_all (has_column df) lst_nm_cols"
    and numeric: "list_all (\<lambda>c. list_all (\<lambda>v. v = Null \<or> is_numeric v) (column_cells df c))
                    lst_nm_cols"
  shows "obter_qtd_zeros eng env df lst_nm_cols =
         Inr (PyDataFrame
                \<lparr>columns = lst_nm_cols,
                 rows = [map (\<lambda>c. IntV (int (length (filter is_zero (column_cells df c)))))
                           lst_nm_cols]\<rparr>) \<and>
         \<not> is_zero Null"
proof -
  let ?aggs = "map (\<lambda>c. AggAlias (Count (When (EqNullSafe (Col c) (Lit (IntV 0))) (Lit (StrV c)))) c)
                 lst_nm_cols"
  let ?G = "\<lambda>a rs. IntV (int (length (filter (\<lambda>r. is_zero (r ! col_index df (agg_name a))) rs)))"
  have b: "\<And>a. a \<in> set ?aggs \<Longrightarrow> bind_agg eng (columns df) a = Inr (\<lambda>rs. Inr (?G a rs))"
    using cols bind_count_zeros by (auto simp: list_all_iff)
  have "agg eng df ?aggs =
        Inr \<lparr>columns = map agg_name ?aggs, rows = [map (\<lambda>a. ?G a (rows df)) ?aggs]\<rparr>"
    using ne by (intro agg_Inr [where F = "\<lambda>a rs. Inr (?G a rs)"] b) simp_all
  then show ?thesis
    by (simp add: obter_qtd_zeros_def column_cells_def comp_def filter_map is_zero_def)
qed

theorem obter_qtd_zeros_counts_witness:
  "[''k'', ''v''] \<noteq> [] \<and>
   list_all (has_column \<lparr>columns = [''k'', ''v''],
       rows = [[IntV 0, IntV 1], [IntV 0, NumV 0], [Null, Null]]\<rparr>) [''k'', ''v''] \<and>
   obter_qtd_zeros example_engine example_environment
     \<lparr>columns = [''k'', ''v''], rows = [[IntV 0, IntV 1], [IntV 0, NumV 0], [Null, Null]]\<rparr>
     [''k'', ''v''] =
   Inr (PyDataFrame \<lparr>columns = [''k'', ''v''], rows = [[IntV 2, IntV 1]]\<rparr>)"
proof -
  let ?df = "\<lparr>columns = [''k'', ''v''],
              rows = [[IntV 0, IntV 1], [IntV 0, NumV 0], [Null, Null]]\<rparr>"
  have h1: "[''k'', ''v''] \<noteq> []" by simp
  have h2: "list_all (has_column ?df) [''k'', ''v'']" by code_simp
  have h3: "list_all (\<lambda>c. list_all (\<lambda>v. v = Null \<or> is_numeric v) (column_cells ?df c))
              [''k'', ''v'']"
    by code_simp
  have ev: "map (\<lambda>c. IntV (int (length (filter is_zero (column_cells ?df c))))) [''k'', ''v''] =
            [IntV 2, IntV 1]"
    by code_simp
  show ?thesis
    using h2 obter_qtd_zeros_counts [OF h1 h2 h3, of example_engine example_environment]
    by (simp only: ev) simp
qed

subsection \<open>Renaming columns\<close>

lemma index_of_map_of:
  "(case index_of (map fst d) c of Some j \<Rightarrow> map snd d ! j | None \<Rightarrow> c) =
   (case map_of d c of Some n \<Rightarrow> n | None \<Rightarrow> c)"
  by (induction d) (auto split: option.splits)

lemma rename_step_eq: "rename_step d xs (i, c) = xs[i := renamed d c]"
  using index_of_map_of [where d = d and c = c]
  by (simp add: rename_step_def renamed_def split: option.splits)

lemma enumerate_snoc:
  "enumerate 0 (ys @ [y]) = enumerate 0 ys @ [(length ys, y)]"
  by (simp add: enumerate_append_eq)

lemma rename_loop:
  "length ys \<le> length xs \<Longrightarrow>
   foldl (rename_step d) xs (enumerate 0 ys) = map (renamed d) ys @ drop (length ys) xs"
proof (induction ys rule: rev_induct)
  case Nil
  then show ?case by simp
next
  case (snoc y ys)
  then have len: "length ys < length xs" by simp
  have "foldl (rename_step d) xs (enumerate 0 (ys @ [y])) =
        (map (renamed d) ys @ drop (length ys) xs)[length ys := renamed d y]"
    using snoc by (simp add: enumerate_snoc rename_step_eq)
  also have "\<dots> = map (renamed d) ys @ (drop (length ys) xs)[0 := renamed d y]"
    by (simp add: list_update_append)
  also have "(drop (length ys) xs)[0 := renamed d y] = renamed d y # drop (Suc (length ys)) xs"
    using len by (simp add: Cons_nth_drop_Suc [symmetric])
  finally show ?case by simp
qed

lemma select_aliases:
  assumes d: "distinct (map lower (columns df))" and wf: "wf_df df"
    and len: "length ns = length (columns df)"
  shows "select eng df (map (\<lambda>(a, b). Alias (Col a) b) (zip (columns df) ns)) =
         Inr \<lparr>columns = ns, rows = rows df\<rparr>"
proof -
  let ?n = "length (columns df)"
  let ?es = "map (\<lambda>(a, b). Alias (Col a) b) (zip (columns df) ns)"
  have es: "?es = map (\<lambda>i. Alias (Col (columns df ! i)) (ns ! i)) [0..<?n]"
    using len by (auto intro!: nth_equalityI)
  have "sequence (map (bind_expr eng (columns df)) (map (\<lambda>i. Alias (Col (columns df ! i)) (ns ! i)) [0..<?n])) =
        Inr (map (\<lambda>i r. Inr (r ! i)) [0..<?n])"
    unfolding map_map
    by (rule sequence_map_Inr) (simp add: resolve_distinct [OF d])
  moreover have "map out_name (map (\<lambda>i. Alias (Col (columns df ! i)) (ns ! i)) [0..<?n]) = ns"
    using len by (auto intro!: nth_equalityI)
  moreover have "on_rows (\<lambda>r. sequence (map (\<lambda>f. f r) (map (\<lambda>i r. Inr (r ! i)) [0..<?n])))
                   (rows df) = Inr (rows df)"
  proof -
    have "\<And>r. r \<in> set (rows df) \<Longrightarrow> map (\<lambda>i. r ! i) [0..<?n] = r"
      using wf by (auto simp: wf_df_def list_all_iff intro!: nth_equalityI)
    then have "map (\<lambda>r. map (\<lambda>i. r ! i) [0..<?n]) (rows df) = rows df"
      by (simp add: map_idI)
    then show ?thesis by (simp add: comp_def)
  qed
  ultimately show ?thesis
    unfolding es select_def by simp
qed

text \<open>
  Claim C6 says that \<^verbatim>\<open>renomear_cols\<close> returns the renamed dataframe for every
  dataframe. It fails on a dataframe in which two columns answer to one name, by the
  same spelling or by spellings that differ in letter case only: the function selects
  each column by its name, and the engine refuses the ambiguous name.
\<close>

theorem renomear_cols_ambiguous_counterexample:
  "renomear_cols example_engine example_environment
     \<lparr>columns = [''a'', ''a''], rows = [[IntV 1, IntV 2]]\<rparr>
     [(''a'', ''b'')] = Inl (AnalysisException ''ambiguous reference a'') \<and>
   renomear_cols example_engine example_environment
     \<lparr>columns = [''a'', ''A''], rows = [[IntV 1, IntV 2]]\<rparr>
     [(''x'', ''y'')] = Inl (AnalysisException ''ambiguous reference a'')"
  by code_simp

text \<open>
  Claim C6 as amended: for every dataframe whose column names are pairwise distinct,
  letter case ignored, and every dictionary, \<^verbatim>\<open>renomear_cols\<close> returns a dataframe
  with the same rows and the same number of columns in the same positions, where the
  column at each position has the dictionary's value for its original name when that
  name is a key, and its original name otherwise.
\<close>

theorem renomear_cols_renames:
  assumes "distinct (map lower (columns df))" and "wf_df df"
  shows "renomear_cols eng env df dict_cols =
         Inr (PyDataFrame
                \<lparr>columns = map (\<lambda>c. case map_of dict_cols c of Some n \<Rightarrow> n | None \<Rightarrow> c)
                             (columns df),
                 rows = rows df\<rparr>)"
proof -
  have "foldl (rename_step dict_cols) (columns df) (enumerate 0 (columns df)) =
        map (renamed dict_cols) (columns df)"
    using rename_loop [of "columns df" "columns df" dict_cols] by simp
  then show ?thesis
    using select_aliases [OF assms, of "map (renamed dict_cols) (columns df)" eng]
    by (simp add: renomear_cols_def renamed_def [abs_def])
qed

theorem renomear_cols_renames_witness:
  "distinct (map lower [''k'', ''v'']) \<and>
   wf_df \<lparr>columns = [''k'', ''v''], rows = [[IntV 0, IntV 1], [Null, StrV ''x'']]\<rparr> \<and>
   renomear_cols example_engine example_environment
     \<lparr>columns = [''k'', ''v''], rows = [[IntV 0, IntV 1], [Null, StrV ''x'']]\<rparr>
     [(''v'', ''w''), (''z'', ''y'')] =
   Inr (PyDataFrame
          \<lparr>columns = [''k'', ''w''], rows = [[IntV 0, IntV 1], [Null, StrV ''x'']]\<rparr>)"
proof -
  let ?df = "\<lparr>columns = [''k'', ''v''], rows = [[IntV 0, IntV 1], [Null, StrV ''x'']]\<rparr>"
  have h1: "distinct (map lower (columns ?df))" by code_simp
  have h2: "wf_df ?df" by code_simp
  show ?thesis
    using h1 h2 renomear_cols_renames [OF h1 h2, of example_engine example_environment
        "[(''v'', ''w''), (''z'', ''y'')]"]
    by simp
qed

subsection \<open>Percentage of missing values\<close>

lemma bind_count_nulls:
  assumes "has_column df c"
  shows "bind_agg eng (columns df) (AggAlias (Count (When (IsNull (Col c)) (Lit (StrV c)))) c) =
         Inr (\<lambda>rs. Inr (IntV (int (length (filter (\<lambda>r. r ! col_index df c = Null) rs)))))"
  using has_column_resolve [OF assms]
  by (simp add: agg1_def lift1_def lift2_def is_null_def count_val_when)

lemma obter_qtd_ausentes_counts:
  assumes ne: "lst \<noteq> []" and cols: "list_all (has_column df) lst"
  shows "obter_qtd_ausentes eng env df (Some lst) =
         Inr (PyDataFrame
                \<lparr>columns = lst,
                 rows = [map (\<lambda>c. IntV (int (length (filter (\<lambda>v. v = Null) (column_cells df c)))))
                           lst]\<rparr>)"
proof -
  let ?aggs = "map (\<lambda>c. AggAlias (Count (When (IsNull (Col c)) (Lit (StrV c)))) c) lst"
  let ?G = "\<lambda>a rs. IntV (int (length (filter (\<lambda>r. r ! col_index df (agg_name a) = Null) rs)))"
  have b: "\<And>a. a \<in> set ?aggs \<Longrightarrow> bind_agg eng (columns df) a = Inr (\<lambda>rs. Inr (?G a rs))"
    using cols bind_count_nulls by (auto simp: list_all_iff)
  have "agg eng df ?aggs =
        Inr \<lparr>columns = map agg_name ?aggs, rows = [map (\<lambda>a. ?G a (rows df)) ?aggs]\<rparr>"
    using ne by (intro agg_Inr [where F = "\<lambda>a rs. Inr (?G a rs)"] b) simp_all
  then show ?thesis
    by (simp add: obter_qtd_ausentes_def column_cells_def comp_def filter_map)
qed

text \<open>
  One percentage: the product stays within 64 bits and the total is not zero, so
  neither mode of the engine raises, and the division is exact.
\<close>

lemma pct_cell:
  "tam \<noteq> 0 \<Longrightarrow> int64 (n * 100) \<Longrightarrow>
   and_then (and_then (mul_val a (IntV n) (IntV 100)) (\<lambda>x. div_val a x (IntV tam)))
     (\<lambda>v. Inr (round_val 2 v)) =
   Inr (NumV (round_half_up (of_int (n * 100) / of_int tam) 2))"
  by (simp add: round_val_def div_val_def mul_val_def as_num_def)

lemma pct_exprs:
  "int64 tam \<Longrightarrow>
   sequence (map (pct_expr tam) lst) =
   Inr (map (\<lambda>c. Alias (Round (Div (Mul (Col c) (Lit (IntV 100))) (Lit (IntV tam))) 2) c) lst)"
  by (rule sequence_map_Inr) (simp add: pct_expr_def py_long_def)

lemma obter_pct_single_row:
  assumes d: "distinct (map lower lst)" and tam: "tam \<noteq> 0" and t64: "int64 tam"
    and n64: "\<And>c. c \<in> set lst \<Longrightarrow> int64 (N c * 100)"
  shows "obter_pct eng env \<lparr>columns = lst, rows = [map (\<lambda>c. IntV (N c)) lst]\<rparr> lst tam =
         Inr (PyDataFrame
                \<lparr>columns = lst,
                 rows = [map (\<lambda>c. NumV (round_half_up (of_int (N c * 100) / of_int tam) 2))
                           lst]\<rparr>)"
proof -
  let ?a = "ansi_enabled eng"
  let ?es = "map (\<lambda>c. Alias (Round (Div (Mul (Col c) (Lit (IntV 100))) (Lit (IntV tam))) 2) c) lst"
  let ?i = "\<lambda>c. SOME i. i < length lst \<and> lst ! i = c"
  let ?g = "\<lambda>c r. and_then (and_then (mul_val ?a (r ! ?i c) (IntV 100))
                                 (\<lambda>x. div_val ?a x (IntV tam)))
                       (\<lambda>v. Inr (round_val 2 v))"
  have idx: "\<And>c. c \<in> set lst \<Longrightarrow>
      resolve lst c = Inr (?i c) \<and> ?i c < length lst \<and> lst ! (?i c) = c"
  proof -
    fix c assume "c \<in> set lst"
    then obtain i where i: "resolve lst c = Inr i" "i < length lst" "lst ! i = c"
      using resolve_member [OF d] by blast
    have "?i c < length lst \<and> lst ! (?i c) = c"
      by (rule someI [of "\<lambda>j. j < length lst \<and> lst ! j = c" i]) (simp add: i)
    moreover from this have "?i c = i"
      using i d by (metis distinct_map nth_eq_iff_index_eq)
    ultimately show "resolve lst c = Inr (?i c) \<and> ?i c < length lst \<and> lst ! (?i c) = c"
      using i by simp
  qed
  have 1: "sequence (map (bind_expr eng lst) ?es) = Inr (map ?g lst)"
    unfolding map_map
    by (rule sequence_map_Inr) (simp add: idx lift1_def lift2_def)
  have 2: "sequence (map (\<lambda>f. f (map (\<lambda>c. IntV (N c)) lst)) (map ?g lst)) =
      Inr (map (\<lambda>c. NumV (round_half_up (of_int (N c * 100) / of_int tam) 2)) lst)"
    unfolding map_map
    by (rule sequence_map_Inr) (simp add: idx pct_cell [OF tam n64])
  have 3: "map out_name ?es = lst"
    by (simp add: comp_def)
  show ?thesis
    unfolding obter_pct_def pct_exprs [OF t64] select_def
    by (simp only: and_then_Inr dataframe.select_convs 1 on_rows_def list.map 2 3
          sequence.simps sum.case return_df_Inr)
qed

text \<open>
  Claim C7 says that \<^verbatim>\<open>obter_pct_ausentes\<close> returns the percentages for every list of
  column names and every nonzero total. It fails on the empty list, where \<^verbatim>\<open>agg\<close>
  raises, on a list that names a column twice (the counts then stand under two columns
  of one name, and \<^verbatim>\<open>obter_pct\<close> selects by that name, which the engine refuses as
  ambiguous), and on a total that does not fit in 64 bits, which cannot be made the
  divisor of the engine's expression.
\<close>

theorem obter_pct_ausentes_list_counterexample:
  "obter_pct_ausentes example_engine example_environment
     \<lparr>columns = [''a''], rows = [[Null], [IntV 1]]\<rparr>
     (Some []) (Some 2) = Inl (AssertionError ''exprs should not be empty'') \<and>
   obter_pct_ausentes example_engine example_environment
     \<lparr>columns = [''a''], rows = [[Null], [IntV 1]]\<rparr>
     (Some [''a'', ''a'']) (Some 2) = Inl (AnalysisException ''ambiguous reference a'') \<and>
   obter_pct_ausentes example_engine example_environment
     \<lparr>columns = [''a''], rows = [[Null], [IntV 1]]\<rparr>
     (Some [''a'']) (Some 9223372036854775808) =
     Inl (Py4JError ''the integer does not fit in 64 bits'')"
  by code_simp

text \<open>
  Claim C7 as amended: for every dataframe of fewer than \<open>2\<^sup>6\<^sup>3 / 100\<close> rows, every
  non-empty list of its column names without repetition, letter case ignored (all the
  columns when the list is \<^verbatim>\<open>None\<close>) and every nonzero total of at most 64 bits
  (the number of rows when \<^verbatim>\<open>None\<close>), \<^verbatim>\<open>obter_pct_ausentes\<close> returns a dataframe
  with the listed names as columns and a single row, in which the cell under each
  listed column is the number of rows where that column is null, multiplied by 100,
  divided by the total and rounded to 2 decimal places. This holds in both modes of
  the engine.
\<close>

theorem obter_pct_ausentes_percentages:
  assumes lst: "lst = (case lst_nm_cols of None \<Rightarrow> columns df | Some l \<Rightarrow> l)"
    and tam: "tam = (case tam_df of None \<Rightarrow> count_df df | Some t \<Rightarrow> t)"
    and nz: "tam \<noteq> 0"
    and t64: "int64 tam"
    and small: "int (length (rows df)) * 100 < 2 ^ 63"
    and ne: "lst \<noteq> []"
    and d: "distinct (map lower lst)"
    and cols: "list_all (has_column df) lst"
  shows "obter_pct_ausentes eng env df lst_nm_cols tam_df =
         Inr (PyDataFrame
                \<lparr>columns = lst,
                 rows = [map (\<lambda>c. NumV (round_half_up
                             (of_int (int (length (filter (\<lambda>v. v = Null) (column_cells df c))) * 100)
                                / of_int tam) 2)) lst]\<rparr>)"
proof -
  let ?N = "\<lambda>c. int (length (filter (\<lambda>v. v = Null) (column_cells df c)))"
  have n64: "int64 (?N c * 100)" for c
  proof -
    have "length (filter (\<lambda>v. v = Null) (column_cells df c)) \<le> length (rows df)"
      using length_filter_le [of "\<lambda>v. v = Null" "column_cells df c"]
      by (simp add: column_cells_def)
    then have "?N c * 100 \<le> int (length (rows df)) * 100" by simp
    with small show ?thesis by (simp add: int64_def)
  qed
  show ?thesis
    using obter_qtd_ausentes_counts [OF ne cols, of eng env]
      obter_pct_single_row [OF d nz t64, of ?N eng env, OF n64]
    by (simp add: obter_pct_ausentes_def transform_def lst [symmetric] tam [symmetric])
qed

theorem obter_pct_ausentes_percentages_witness:
  "[''k'', ''v''] \<noteq> [] \<and> distinct (map lower [''k'', ''v'']) \<and>
   obter_pct_ausentes example_engine example_environment
     \<lparr>columns = [''k'', ''v''], rows = [[Null, IntV 1], [IntV 2, Null], [IntV 3, Null]]\<rparr>
     None None =
   Inr (PyDataFrame
          \<lparr>columns = [''k'', ''v''], rows = [[NumV (3333 / 100), NumV (6667 / 100)]]\<rparr>)"
proof -
  let ?df = "\<lparr>columns = [''k'', ''v''],
              rows = [[Null, IntV 1], [IntV 2, Null], [IntV 3, Null]]\<rparr>"
  have h1: "[''k'', ''v''] = (case None of None \<Rightarrow> columns ?df | Some l \<Rightarrow> l)" by simp
  have h2: "(3::int) = (case None of None \<Rightarrow> count_df ?df | Some t \<Rightarrow> t)"
    by (simp add: count_df_def)
  have h3: "(3::int) \<noteq> 0" by simp
  have h4: "int64 3" by (simp add: int64_def)
  have h5: "int (length (rows ?df)) * 100 < 2 ^ 63" by simp
  have h6: "[''k'', ''v''] \<noteq> []" by simp
  have h7: "distinct (map lower [''k'', ''v''])" by code_simp
  have h8: "list_all (has_column ?df) [''k'', ''v'']" by code_simp
  have "map (\<lambda>c. int (length (filter (\<lambda>v. v = Null) (column_cells ?df c)))) [''k'', ''v''] =
        [1, 2]"
    by code_simp
  then have n: "int (length (filter (\<lambda>v. v = Null) (column_cells ?df ''k''))) = 1"
      "int (length (filter (\<lambda>v. v = Null) (column_cells ?df ''v''))) = 2"
    by simp_all
  have "\<lfloor>(20003 / 6 :: rat)\<rfloor> = 3333" "\<lfloor>(40003 / 6 :: rat)\<rfloor> = 6667"
    by (rule floor_unique, simp_all)+
  then have r: "round_half_up (of_int (1 * 100) / of_int 3) 2 = 3333 / 100"
      "round_half_up (of_int (2 * 100) / of_int 3) 2 = 6667 / 100"
    by (simp_all add: round_half_up_def)
  have ev: "map (\<lambda>c. NumV (round_half_up
                (of_int (int (length (filter (\<lambda>v. v = Null) (column_cells ?df c))) * 100)
                   / of_int 3) 2)) [''k'', ''v''] =
            [NumV (3333 / 100), NumV (6667 / 100)]"
    unfolding list.map n r by (rule refl)
  show ?thesis
    using h7 obter_pct_ausentes_percentages [OF h1 h2 h3 h4 h5 h6 h7 h8,
        of example_engine example_environment]
    by (simp only: ev) simp
qed

subsection \<open>Frequency table\<close>

lemma same_name_refl: "same_name c c"
  by (simp add: same_name_def)

lemma filter_prefix_none:
  "list_all (\<lambda>c. \<not> same_name c x) names \<Longrightarrow>
   filter (\<lambda>j. same_name ((names @ rest) ! j) x) [0..<length names] = []"
  by (auto simp: filter_empty_conv nth_append list_all_iff)

lemma resolve_after_names:
  assumes "list_all (\<lambda>c. \<not> same_name c x) names"
    and "same_name y x" and "list_all (\<lambda>c. \<not> same_name c x) rest"
  shows "resolve (names @ y # rest) x = Inr (length names)"
proof -
  have "[0..<length names + Suc (length rest)] =
        [0..<length names] @ [length names..<length names + Suc (length rest)]"
    by (rule upt_add_eq_append) simp
  moreover have "[length names..<length names + Suc (length rest)] =
        length names # [Suc (length names)..<Suc (length names) + length rest]"
    using upt_conv_Cons [of "length names" "length names + Suc (length rest)"]
    by (simp del: upt_Suc)
  moreover have "[Suc (length names)..<Suc (length names) + length rest] =
        map (\<lambda>j. Suc (length names) + j) [0..<length rest]"
    using map_add_upt [of "Suc (length names)" "length rest"] by (simp add: add.commute)
  ultimately have split: "[0..<length (names @ y # rest)] =
      [0..<length names] @ length names # map (\<lambda>j. Suc (length names) + j) [0..<length rest]"
    by (simp del: upt_Suc)
  let ?P = "\<lambda>j. same_name ((names @ y # rest) ! j) x"
  have p1: "filter ?P [0..<length names] = []"
    by (rule filter_prefix_none [OF assms(1)])
  have p2: "?P (length names)"
    using assms(2) by simp
  have p3: "filter ?P (map (\<lambda>j. Suc (length names) + j) [0..<length rest]) = []"
    using assms(3) by (auto simp: filter_empty_conv nth_append list_all_iff)
  have "filter ?P [0..<length (names @ y # rest)] =
        filter ?P [0..<length names] @
        filter ?P (length names # map (\<lambda>j. Suc (length names) + j) [0..<length rest])"
    by (simp only: split filter_append)
  also have "\<dots> = [length names]"
    by (simp only: p1 filter.simps p2 p3 if_True append_Nil)
  finally have "filter ?P [0..<length (names @ y # rest)] = [length names]" .
  then show ?thesis
    by (simp only: resolve_def list.case)
qed

lemma set_insort_by: "set (insort_by le x ys) = insert x (set ys)"
  by (induction ys) auto

lemma sort_by_Nil: "sort_by le [] = []"
  by (simp add: sort_by_def)

lemma sort_by_Cons: "sort_by le (x # xs) = insort_by le x (sort_by le xs)"
  by (simp add: sort_by_def)

lemma set_sort_by: "set (sort_by le xs) = set xs"
  by (induction xs) (simp_all add: sort_by_Nil sort_by_Cons set_insort_by)

lemma distinct_map_insort_by:
  "distinct (map f (insort_by le x ys)) = distinct (map f (x # ys))"
  by (induction ys) (auto simp: set_insort_by)

lemma distinct_map_sort_by: "distinct (map f (sort_by le xs)) = distinct (map f xs)"
  by (induction xs) (simp_all add: sort_by_Nil sort_by_Cons distinct_map_insort_by set_sort_by)

lemma sorted_insort_by_key:
  fixes key :: "'a \<Rightarrow> int"
  assumes le: "\<And>a b. a \<in> S \<Longrightarrow> b \<in> S \<Longrightarrow> le a b = (key b \<le> key a)"
  shows "x \<in> S \<Longrightarrow> set ys \<subseteq> S \<Longrightarrow> sorted_wrt (\<lambda>a b. key b \<le> key a) ys \<Longrightarrow>
         sorted_wrt (\<lambda>a b. key b \<le> key a) (insort_by le x ys)"
proof (induction ys)
  case Nil
  then show ?case by simp
next
  case (Cons y ys)
  show ?case
  proof (cases "le x y")
    case True
    then have "key y \<le> key x" using le Cons.prems by simp
    then show ?thesis using True Cons.prems by (auto intro: order_trans)
  next
    case False
    then have "key x \<le> key y" using le Cons.prems by simp
    then show ?thesis using False Cons by (auto simp: set_insort_by)
  qed
qed

lemma sorted_sort_by_key:
  fixes key :: "'a \<Rightarrow> int"
  assumes le: "\<And>a b. a \<in> S \<Longrightarrow> b \<in> S \<Longrightarrow> le a b = (key b \<le> key a)"
  shows "set xs \<subseteq> S \<Longrightarrow> sorted_wrt (\<lambda>a b. key b \<le> key a) (sort_by le xs)"
proof (induction xs)
  case Nil
  then show ?case by (simp add: sort_by_Nil)
next
  case (Cons x xs)
  then show ?case
    using sorted_insort_by_key [of S le key x "sort_by le xs", OF le]
    by (simp add: set_sort_by sort_by_Cons)
qed

text \<open>Sorting rows by their sort cells is sorting the rows by the cells' order.\<close>

lemma insort_by_decorate:
  "insort_by (\<lambda>p q. le (snd p) (snd q)) (x, key x) (map (\<lambda>r. (r, key r)) ys) =
   map (\<lambda>r. (r, key r)) (insort_by (\<lambda>a b. le (key a) (key b)) x ys)"
  by (induction ys) auto

lemma sort_by_decorate:
  "sort_by (\<lambda>p q. le (snd p) (snd q)) (map (\<lambda>r. (r, key r)) rs) =
   map (\<lambda>r. (r, key r)) (sort_by (\<lambda>a b. le (key a) (key b)) rs)"
  by (induction rs) (simp_all add: sort_by_Nil sort_by_Cons insort_by_decorate)

lemma orderBy_desc_col:
  assumes "resolve (columns df) c = Inr k"
  shows "orderBy eng df [Desc (Col c)] =
         Inr (df\<lparr>rows := sort_by (\<lambda>a b. keys_le [False] [a ! k] [b ! k]) (rows df)\<rparr>)"
proof -
  have "zip (rows df) (map (\<lambda>r. [r ! k]) (rows df)) = map (\<lambda>r. (r, [r ! k])) (rows df)"
    by (simp add: zip_map2 zip_same_conv_map)
  then have "map fst (sort_by (\<lambda>p q. keys_le [False] (snd p) (snd q))
                (zip (rows df) (map (\<lambda>r. [r ! k]) (rows df)))) =
        sort_by (\<lambda>a b. keys_le [False] [a ! k] [b ! k]) (rows df)"
    by (simp only: sort_by_decorate [where key = "\<lambda>r. [r ! k]"] map_map comp_def fst_conv map_ident)
  then show ?thesis
    by (simp add: orderBy_def assms)
qed

lemma keys_le_desc_int: "keys_le [False] [IntV m] [IntV n] = (n \<le> m)"
  by (auto simp: before_def val_less_def as_num_def)

lemma group_of_key:
  "map fst (filter (\<lambda>p. snd p = key) (zip rs (map f rs))) = filter (\<lambda>r. f r = key) rs"
  by (induction rs) auto

lemma count_val_ones: "count_val (map (\<lambda>r. IntV 1) rs) = IntV (int (length rs))"
  by (induction rs) (auto simp: count_val_def)

lemma groupBy_count_rows:
  assumes cols: "list_all (has_column df) names"
  shows "groupBy_count eng df (map Col names) =
         Inr \<lparr>columns = names @ [''count''],
              rows = map (\<lambda>key. key @ [IntV (freq_of df names key)])
                       (if names = [] then [[]] else remdups (map (cells_of df names) (rows df)))\<rparr>"
proof -
  have ks: "sequence (map (bind_expr eng (columns df)) (map Col names)) =
            Inr (map (\<lambda>c r. Inr (r ! col_index df c)) names)"
    unfolding map_map
    using cols by (intro sequence_map_Inr) (simp add: list_all_iff has_column_resolve)
  have key: "on_rows (\<lambda>r. sequence (map (\<lambda>k. k r) (map (\<lambda>c r. Inr (r ! col_index df c)) names)))
               (rows df) = Inr (map (cells_of df names) (rows df))"
    by (rule on_rows_Inr) (simp add: cells_of_def comp_def)
  have g: "sequence (map (bind_agg eng (columns df)) [AggAlias (Count (Lit (IntV 1))) ''count'']) =
           Inr [\<lambda>rs. Inr (IntV (int (length rs)))]"
    by (simp add: agg1_def count_val_ones)
  have nil: "(map (\<lambda>c r. Inr (r ! col_index df c) :: error + val) names = []) = (names = [])"
    by simp
  have grp: "group_rows (rows df) (map (cells_of df names) (rows df)) (names = [])
               [\<lambda>rs. Inr (IntV (int (length rs)))] =
             Inr (map (\<lambda>key. key @ [IntV (freq_of df names key)])
                    (if names = [] then [[]] else remdups (map (cells_of df names) (rows df))))"
    unfolding group_rows_def Let_def
    by (rule sequence_map_Inr) (simp add: group_of_key freq_of_def)
  have out: "map out_name (map Col names) = names"
    by (simp add: comp_def)
  show ?thesis
    unfolding groupBy_count_def grouped_def ks and_then_Inr g key nil grp out
    by simp
qed

lemma not_same_name_fr_fa: "\<not> same_name ''freq_relativa (%)'' ''freq_absoluta''"
  by code_simp

lemma not_same_name_fa_fr: "\<not> same_name ''freq_absoluta'' ''freq_relativa (%)''"
  by code_simp

lemma rename_count:
  "list_all (\<lambda>c. \<not> same_name c ''count'') names \<Longrightarrow>
   map (\<lambda>c. if same_name c ''count'' then ''freq_absoluta'' else c) (names @ [''count'']) =
   names @ [''freq_absoluta'']"
  by (simp add: same_name_refl list_all_iff map_idI)

lemma obter_tab_freq_rows:
  assumes names: "names = cols_list nm_col"
    and tam: "tam = (case tam_df of None \<Rightarrow> count_df df | Some t \<Rightarrow> t)"
    and nz: "tam \<noteq> 0"
    and t64: "int64 tam"
    and small: "int (length (rows df)) * 100 < 2 ^ 63"
    and cols: "list_all (has_column df) names"
    and c1: "list_all (\<lambda>c. \<not> same_name c ''count'') names"
    and c2: "list_all (\<lambda>c. \<not> same_name c ''freq_absoluta'') names"
    and c3: "list_all (\<lambda>c. \<not> same_name c ''freq_relativa (%)'') names"
    and keys: "keys = (if names = [] then [[]] else remdups (map (cells_of df names) (rows df)))"
  shows "snd (obter_tab_freq eng env df nm_col tam_df) =
         Inr (PyDataFrame
                \<lparr>columns = names @ [''freq_absoluta'', ''freq_relativa (%)''],
                 rows = sort_by (\<lambda>a b. keys_le [False] [a ! length names] [b ! length names])
                   (map (\<lambda>key. key @ [IntV (freq_of df names key),
                           NumV (round_half_up (of_int (freq_of df names key * 100) / of_int tam) 2)])
                      keys)\<rparr>)"
proof -
  let ?k = "length names"
  let ?fa = "''freq_absoluta''" and ?fr = "''freq_relativa (%)''"
  let ?rows1 = "map (\<lambda>key. key @ [IntV (freq_of df names key)]) keys"
  let ?d2 = "\<lparr>columns = names @ [?fa], rows = ?rows1\<rparr>"
  let ?a = "ansi_enabled eng"
  let ?f = "\<lambda>r. and_then (and_then (mul_val ?a (r ! ?k) (IntV 100)) (\<lambda>x. div_val ?a x (IntV tam)))
                 (\<lambda>v. Inr (round_val 2 v))"
  let ?pct = "\<lambda>key. NumV (round_half_up (of_int (freq_of df names key * 100) / of_int tam) 2)"
  let ?rows3 = "map (\<lambda>key. key @ [IntV (freq_of df names key),
                  NumV (round_half_up (of_int (freq_of df names key * 100) / of_int tam) 2)]) keys"
  let ?d3 = "\<lparr>columns = names @ [?fa, ?fr], rows = ?rows3\<rparr>"
  have len: "\<And>key. key \<in> set keys \<Longrightarrow> length key = ?k"
    by (auto simp: keys cells_of_def split: if_splits)
  have s1: "groupBy_count eng df (map Col (cols_list nm_col)) =
            Inr \<lparr>columns = names @ [''count''], rows = ?rows1\<rparr>"
    using groupBy_count_rows [OF cols, of eng] by (simp add: names [symmetric] keys)
  have s2: "withColumnRenamed \<lparr>columns = names @ [''count''], rows = ?rows1\<rparr> ''count'' ?fa = ?d2"
    using rename_count [OF c1] by (simp add: withColumnRenamed_def)
  have r1: "resolve (names @ [?fa]) ?fa = Inr ?k"
    by (rule resolve_after_names [OF c2]) (simp_all add: same_name_refl)
  have b: "bind_expr eng (names @ [?fa])
             (Round (Div (Mul (Col ?fa) (Lit (IntV 100))) (Lit (IntV tam))) 2) = Inr ?f"
    by (simp add: r1 lift1_def lift2_def)
  have no_fr: "\<not> list_ex (\<lambda>c. same_name c ?fr) (names @ [?fa])"
    using c3 not_same_name_fa_fr by (simp add: list_ex_iff list_all_iff)
  have f64: "int64 (freq_of df names key * 100)" for key
  proof -
    have "freq_of df names key \<le> int (length (rows df))"
      by (simp add: freq_of_def)
    then have "freq_of df names key * 100 \<le> int (length (rows df)) * 100" by simp
    moreover have "0 \<le> freq_of df names key" by (simp add: freq_of_def)
    ultimately show ?thesis using small by (simp add: int64_def)
  qed
  have vs: "on_rows ?f ?rows1 = Inr (map ?pct keys)"
    unfolding on_rows_def map_map
    by (rule sequence_map_Inr) (simp add: len nth_append pct_cell [OF nz f64])
  have rows3: "map (\<lambda>(r, v). r @ [v]) (zip ?rows1 (map ?pct keys)) = ?rows3"
    by (simp add: zip_map_map zip_same_conv_map)
  have s3: "withColumn eng ?d2 ?fr
              (Round (Div (Mul (Col ?fa) (Lit (IntV 100))) (Lit (IntV tam))) 2) = Inr ?d3"
    unfolding withColumn_def dataframe.select_convs
    unfolding b and_then_Inr vs rows3
    using no_fr by simp
  have r2: "resolve (names @ [?fa, ?fr]) ?fa = Inr ?k"
    by (rule resolve_after_names [OF c2]) (simp_all add: same_name_refl not_same_name_fr_fa)
  have s4: "orderBy eng ?d3 [Desc (Col ?fa)] =
            Inr \<lparr>columns = names @ [?fa, ?fr],
                 rows = sort_by (\<lambda>a b. keys_le [False] [a ! ?k] [b ! ?k]) ?rows3\<rparr>"
    using orderBy_desc_col [of ?d3 ?fa ?k eng] r2 by simp
  have t: "py_long tam = Inr tam"
    using t64 by (simp add: py_long_def)
  show ?thesis
    by (simp only: obter_tab_freq_def Let_def tam [symmetric] snd_conv s1 and_then_Inr t
        s2 s3 s4 return_df_Inr)
qed

text \<open>
  Claim C8 says that \<^verbatim>\<open>obter_tab_freq\<close> returns the frequency table for every
  grouping column or list of columns and every nonzero total. It fails when a grouping
  column answers to the name \<^verbatim>\<open>count\<close>: the grouped dataframe then has two columns
  of that name, both are renamed to \<^verbatim>\<open>freq_absoluta\<close>, and the engine refuses that
  name as ambiguous. It fails on the empty list of columns over a dataframe without
  rows, where the result has one row, with the frequency 0, for no combination of
  values. It fails on a total that does not fit in 64 bits, which cannot be made the
  divisor of the engine's expression: the call prints its title and raises.
\<close>

theorem obter_tab_freq_names_counterexample:
  "obter_tab_freq example_engine example_environment
     \<lparr>columns = [''count''], rows = [[IntV 7]]\<rparr> (OneCol ''count'') None =
     ([''Tabela de frequencias''],
      Inl (AnalysisException ''ambiguous reference freq_absoluta'')) \<and>
   obter_tab_freq example_engine example_environment
     \<lparr>columns = [''a''], rows = []\<rparr> (ManyCols []) (Some 5) =
     ([''Tabela de frequencias''],
      Inr (PyDataFrame
             \<lparr>columns = [''freq_absoluta'', ''freq_relativa (%)''],
              rows = [[IntV 0, NumV 0]]\<rparr>)) \<and>
   obter_tab_freq example_engine example_environment
     \<lparr>columns = [''a''], rows = [[IntV 7]]\<rparr> (OneCol ''a'') (Some 9223372036854775808) =
     ([''Tabela de frequencias''], Inl (Py4JError ''the integer does not fit in 64 bits''))"
  by code_simp

text \<open>
  Claim C8 as amended: for every dataframe of fewer than \<open>2\<^sup>6\<^sup>3 / 100\<close> rows, every
  grouping column or non-empty list of grouping columns of the dataframe none of which
  answers to \<^verbatim>\<open>count\<close>, \<^verbatim>\<open>freq_absoluta\<close> or \<^verbatim>\<open>freq_relativa (%)\<close>, and every
  nonzero total of at most 64 bits (the number of rows when \<^verbatim>\<open>None\<close>), in both modes
  of the engine, \<^verbatim>\<open>obter_tab_freq\<close> prints its title and returns a dataframe
  with the grouping columns followed by \<^verbatim>\<open>freq_absoluta\<close> and
  \<^verbatim>\<open>freq_relativa (%)\<close>. It has one row per distinct combination of cells of the
  grouping columns; in each row \<^verbatim>\<open>freq_absoluta\<close> is the number of input rows with
  that combination and \<^verbatim>\<open>freq_relativa (%)\<close> is that number times 100 divided by
  the total, rounded to 2 decimal places; the rows are in descending order of
  \<^verbatim>\<open>freq_absoluta\<close>.
\<close>

theorem obter_tab_freq_table:
  assumes names: "names = cols_list nm_col"
    and tam: "tam = (case tam_df of None \<Rightarrow> count_df df | Some t \<Rightarrow> t)"
    and nz: "tam \<noteq> 0"
    and t64: "int64 tam"
    and small: "int (length (rows df)) * 100 < 2 ^ 63"
    and ne: "names \<noteq> []"
    and cols: "list_all (has_column df) names"
    and c1: "list_all (\<lambda>c. \<not> same_name c ''count'') names"
    and c2: "list_all (\<lambda>c. \<not> same_name c ''freq_absoluta'') names"
    and c3: "list_all (\<lambda>c. \<not> same_name c ''freq_relativa (%)'') names"
  shows "\<exists>res. obter_tab_freq eng env df nm_col tam_df =
             ([''Tabela de frequencias''], Inr (PyDataFrame res)) \<and>
           columns res = names @ [''freq_absoluta'', ''freq_relativa (%)''] \<and>
           distinct (map (take (length names)) (rows res)) \<and>
           set (map (take (length names)) (rows res)) = set (map (cells_of df names) (rows df)) \<and>
           list_all (\<lambda>r. r = take (length names) r @
                       [IntV (freq_of df names (take (length names) r)),
                        NumV (round_half_up
                          (of_int (freq_of df names (take (length names) r) * 100) / of_int tam) 2)])
             (rows res) \<and>
           sorted_wrt (\<lambda>a b. int_cell (b ! length names) \<le> int_cell (a ! length names)) (rows res)"
proof -
  let ?k = "length names"
  let ?keys = "remdups (map (cells_of df names) (rows df))"
  let ?mk = "\<lambda>key. key @ [IntV (freq_of df names key),
                NumV (round_half_up (of_int (freq_of df names key * 100) / of_int tam) 2)]"
  let ?le = "\<lambda>a b. keys_le [False] [a ! ?k] [b ! ?k]"
  let ?res = "\<lparr>columns = names @ [''freq_absoluta'', ''freq_relativa (%)''],
              rows = sort_by ?le (map ?mk ?keys)\<rparr>"
  have keys: "?keys = (if names = [] then [[]] else ?keys)"
    using ne by simp
  have "snd (obter_tab_freq eng env df nm_col tam_df) = Inr (PyDataFrame ?res)"
    by (rule obter_tab_freq_rows [OF names tam nz t64 small cols c1 c2 c3 keys])
  moreover have "fst (obter_tab_freq eng env df nm_col tam_df) = [''Tabela de frequencias'']"
    by (simp add: obter_tab_freq_def Let_def)
  ultimately have out: "obter_tab_freq eng env df nm_col tam_df =
      ([''Tabela de frequencias''], Inr (PyDataFrame ?res))"
    by (simp add: prod_eq_iff)
  have len: "\<And>key. key \<in> set ?keys \<Longrightarrow> length key = ?k"
    by (auto simp: cells_of_def)
  have tk: "map (take ?k) (map ?mk ?keys) = ?keys"
  proof -
    have "map (\<lambda>key. take ?k (?mk key)) ?keys = map (\<lambda>key. key) ?keys"
      by (rule map_cong [OF refl]) (simp add: len)
    then show ?thesis by (simp add: comp_def)
  qed
  have p1: "distinct (map (take ?k) (rows ?res))"
    by (simp only: dataframe.select_convs distinct_map_sort_by tk distinct_remdups)
  have "set (map (take ?k) (rows ?res)) = set (map (take ?k) (map ?mk ?keys))"
    by (simp only: dataframe.select_convs set_map set_sort_by)
  then have p2: "set (map (take ?k) (rows ?res)) = set (map (cells_of df names) (rows df))"
    by (simp only: tk set_remdups)
  have p3: "list_all (\<lambda>r. r = take ?k r @
                       [IntV (freq_of df names (take ?k r)),
                        NumV (round_half_up
                          (of_int (freq_of df names (take ?k r) * 100) / of_int tam) 2)])
             (rows ?res)"
    using len by (auto simp: list_all_iff set_sort_by)
  have le: "\<And>a b. a \<in> set (map ?mk ?keys) \<Longrightarrow> b \<in> set (map ?mk ?keys) \<Longrightarrow>
              ?le a b = (int_cell (b ! ?k) \<le> int_cell (a ! ?k))"
  proof -
    fix a b assume "a \<in> set (map ?mk ?keys)" "b \<in> set (map ?mk ?keys)"
    then obtain ka kb where a: "a = ?mk ka" "length ka = ?k" and b: "b = ?mk kb" "length kb = ?k"
      using len by auto
    have av: "a ! ?k = IntV (freq_of df names ka)" and bv: "b ! ?k = IntV (freq_of df names kb)"
      using a b by (simp_all add: nth_append)
    have "?le a b = (freq_of df names kb \<le> freq_of df names ka)"
      by (simp only: av bv keys_le_desc_int)
    then show "?le a b = (int_cell (b ! ?k) \<le> int_cell (a ! ?k))"
      by (simp only: av bv int_cell_def val.case)
  qed
  have p4: "sorted_wrt (\<lambda>a b. int_cell (b ! ?k) \<le> int_cell (a ! ?k)) (rows ?res)"
    using sorted_sort_by_key [of "set (map ?mk ?keys)" ?le "\<lambda>r. int_cell (r ! ?k)" "map ?mk ?keys", OF le]
    by simp
  show ?thesis
    using out p1 p2 p3 p4 by (intro exI [of _ ?res]) simp
qed

theorem obter_tab_freq_table_witness:
  "list_all (has_column \<lparr>columns = [''k'', ''v''],
       rows = [[StrV ''a'', IntV 1], [StrV ''b'', IntV 1], [StrV ''b'', IntV 2], [Null, IntV 2]]\<rparr>)
     [''k''] \<and>
   (\<exists>res. obter_tab_freq example_engine example_environment
       \<lparr>columns = [''k'', ''v''],
          rows = [[StrV ''a'', IntV 1], [StrV ''b'', IntV 1], [StrV ''b'', IntV 2], [Null, IntV 2]]\<rparr>
       (OneCol ''k'') None = ([''Tabela de frequencias''], Inr (PyDataFrame res)) \<and>
     columns res = [''k'', ''freq_absoluta'', ''freq_relativa (%)''] \<and>
     distinct (map (take 1) (rows res)) \<and>
     sorted_wrt (\<lambda>a b. int_cell (b ! 1) \<le> int_cell (a ! 1)) (rows res))"
proof -
  let ?df = "\<lparr>columns = [''k'', ''v''],
       rows = [[StrV ''a'', IntV 1], [StrV ''b'', IntV 1], [StrV ''b'', IntV 2], [Null, IntV 2]]\<rparr>"
  have h1: "[''k''] = cols_list (OneCol ''k'')" by simp
  have h2: "(4::int) = (case None of None \<Rightarrow> count_df ?df | Some t \<Rightarrow> t)"
    by (simp add: count_df_def)
  have h3: "(4::int) \<noteq> 0" by simp
  have h3a: "int64 4" by (simp add: int64_def)
  have h3b: "int (length (rows ?df)) * 100 < 2 ^ 63" by simp
  have h4: "[''k''] \<noteq> []" by simp
  have h5: "list_all (has_column ?df) [''k'']" by code_simp
  have h6: "list_all (\<lambda>c. \<not> same_name c ''count'') [''k'']" by code_simp
  have h7: "list_all (\<lambda>c. \<not> same_name c ''freq_absoluta'') [''k'']" by code_simp
  have h8: "list_all (\<lambda>c. \<not> same_name c ''freq_relativa (%)'') [''k'']" by code_simp
  show ?thesis
    using h5 obter_tab_freq_table [OF h1 h2 h3 h3a h3b h4 h5 h6 h7 h8,
        of example_engine example_environment]
    by auto
qed

subsection \<open>The last months of a date column\<close>















text \<open>
  The maximum of a column of dates, and of a column of date strings once it is cast,
  is the latest date of the column.
\<close>

lemma val_less_dates [simp]:
  "val_less (DateV a) (DateV b) = date_less a b"
  "val_less Null (DateV b)"
  "\<not> val_less (DateV a) Null"
  "\<not> val_less Null Null"
  "val_less (StrV s) (StrV t) = (s < t)"
  "val_less Null (StrV t)"
  "\<not> val_less (StrV s) Null"
  by (simp_all add: val_less_def as_num_def)













subsection \<open>What a call returns, and what it depends on\<close>

lemma add_months_val_result:
  "add_months_val a v n = Inr w \<Longrightarrow> w = Null \<or> is_date w"
  by (auto simp: add_months_val_def Let_def is_date_def split: sum.splits val.splits if_splits)

lemma and_then_result: "and_then m f = Inr y \<Longrightarrow> \<exists>x. m = Inr x \<and> f x = Inr y"
  by (cases m) auto

lemma to_python_result: "to_python v = Inr w \<Longrightarrow> w = v"
  by (auto simp: to_python_def split: val.splits prod.splits if_splits)

lemma agg_add_months_result:
  assumes "agg eng df [AddMonths a n] = Inr d"
  shows "\<exists>w. rows d = [[w]] \<and> (w = Null \<or> is_date w)"
proof -
  from assms obtain g where g: "bind_agg eng (columns df) (AddMonths a n) = Inr g"
    by (auto simp: agg_def groupBy_agg_def grouped_def split: sum.splits)
  then obtain g0 where g0: "g = (\<lambda>rs. and_then (g0 rs) (\<lambda>v. add_months_val (ansi_enabled eng) v n))"
    by (auto split: sum.splits)
  from assms g obtain w where w: "g (rows df) = Inr w" "rows d = [[w]]"
    by (auto simp: agg_def groupBy_agg_def grouped_def group_rows_def all_rows_no_keys
        split: sum.splits)
  from w(1) obtain v where "add_months_val (ansi_enabled eng) v n = Inr w"
    unfolding g0 by (auto dest: and_then_result)
  then show ?thesis using w(2) add_months_val_result by blast
qed

lemma obter_data_inicial_value:
  assumes "obter_data_inicial eng env df c n = Inr r"
  shows "\<exists>v. r = PyValue v \<and> (v = Null \<or> is_date v)"
proof -
  from assms obtain m d rs v where
    d: "agg eng df [AddMonths (Max (Col c)) m] = Inr d"
    and rs: "collect d = Inr rs" and v: "first_cell rs = Inr v" and r: "r = PyValue v"
    unfolding obter_data_inicial_def
    by (auto dest!: and_then_result)
  from agg_add_months_result [OF d] obtain w where w: "rows d = [[w]]" "w = Null \<or> is_date w"
    by blast
  from rs w(1) have "rs = [[w]]"
    by (auto simp: collect_def dest: to_python_result split: sum.splits)
  with v have "v = w" by (simp add: first_cell_def)
  with r w(2) show ?thesis by simp
qed

text \<open>
  Claim C3 says that every public function that receives a dataframe returns a
  dataframe, or returns nothing and prints. It fails on \<^verbatim>\<open>obter_data_inicial\<close>,
  which returns a date: here the last day of February for a column whose latest date
  is the last day of March, one month back.
\<close>

theorem returns_scalar_counterexample:
  "snd (run example_engine example_environment
          (Obter_data_inicial \<lparr>columns = [''d''], rows = [[DateV (2024, 3, 31)]]\<rparr> ''d'' 1)) =
   Inr (PyValue (DateV (2024, 2, 29)))"
  by code_simp

text \<open>
  Claim C3 as amended: a call that returns gives a value that is a date or null when
  the function is \<^verbatim>\<open>obter_data_inicial\<close>; for every other public function it gives a
  dataframe, or gives \<^verbatim>\<open>None\<close> after having printed.
\<close>

theorem returns_frame_or_prints:
  assumes "snd (run eng env c) = Inr r"
  shows "if is_obter_data_inicial c then (\<exists>v. r = PyValue v \<and> (v = Null \<or> is_date v))
         else (\<exists>d. r = PyDataFrame d) \<or> (r = PyNone \<and> fst (run eng env c) \<noteq> [])"
proof (cases c)
  case (Obter_data_inicial df col n)
  then show ?thesis
    using assms by (auto simp: silent_def dest: obter_data_inicial_value)
next
  case (Filtrar_ultimos_n_meses df col n)
  then show ?thesis
    using assms by (auto simp: silent_def filtrar_ultimos_n_meses_def dest!: and_then_result return_df_frame)
next
  case (Mostrar_visao_geral df n t)
  then show ?thesis
    using assms by (auto simp: mostrar_visao_geral_def Let_def)
next
  case (Mostrar_teste_granularidade df cs t)
  then show ?thesis
    using assms by (auto simp: mostrar_teste_granularidade_def Let_def split: sum.splits)
next
  case (OrderBy_dict df d)
  then show ?thesis
    using assms by (auto simp: silent_def orderBy_dict_def dest!: return_df_frame split: option.splits)
next
  case (Obter_tab_freq df cs t)
  then show ?thesis
    using assms by (auto simp: obter_tab_freq_def Let_def dest!: return_df_frame)
qed (use assms in \<open>auto simp: silent_def Let_def criar_col_dat_hoje_def obter_distrib_data_def
      obter_distrib_def obter_intervalo_def renomear_cols_def remover_cols_hudi_def
      renomear_cols_para_minusculo_def obter_pct_def formatar_cols_moeda_def
      formatar_cols_decimal_def formatar_cols_float_def formatar_cols_int_def
      formatar_cols_zeros_a_esquerda_def remover_espacos_extra_def agrupar_def
      obter_top_valores_def preencher_nulos_def obter_qtd_ausentes_def
      obter_pct_ausentes_def obter_qtd_zeros_def obter_pct_zeros_def
      obter_qtd_distintos_def obter_pct_distintos_def selecionar_cols_distintas_def
      obter_tab_freq_periodo_def criar_col_qtd_digitos_def
    dest!: return_df_frame\<close>)

theorem returns_frame_or_prints_witness:
  "snd (run example_engine example_environment
     (Mostrar_visao_geral \<lparr>columns = [''d''], rows = [[IntV 1]]\<rparr> ''vendas'' None)) =
     Inr PyNone \<and>
   fst (run example_engine example_environment
     (Mostrar_visao_geral \<lparr>columns = [''d''], rows = [[IntV 1]]\<rparr> ''vendas'' None)) \<noteq> []"
proof -
  have h: "snd (run example_engine example_environment
     (Mostrar_visao_geral \<lparr>columns = [''d''], rows = [[IntV 1]]\<rparr> ''vendas'' None)) =
     Inr PyNone"
    by (simp add: mostrar_visao_geral_def Let_def)
  show ?thesis
    using h returns_frame_or_prints [OF h] by simp
qed

text \<open>
  Claim C4 says that no function depends on the environment, such as the current date:
  two runs on the same input give equal results. It fails on \<^verbatim>\<open>criar_col_dat_hoje\<close>,
  which reads the clock: run on two different days, it gives two different dataframes.
  It fails on \<^verbatim>\<open>formatar_cols_moeda\<close>, whose formatter is called without a locale
  and takes the default locale from the environment: run under two locales, it gives
  two different dataframes.
\<close>

theorem environment_counterexample:
  "run example_engine
     \<lparr>clock = \<lparr>dt_date = (2024, 5, 17), dt_microseconds = 0\<rparr>, default_locale = ''pt_BR''\<rparr>
     (Criar_col_dat_hoje \<lparr>columns = [''a''], rows = [[IntV 1]]\<rparr> ''hoje'') =
     ([], Inr (PyDataFrame
                 \<lparr>columns = [''a'', ''hoje''], rows = [[IntV 1, DateV (2024, 5, 17)]]\<rparr>)) \<and>
   run example_engine
     \<lparr>clock = \<lparr>dt_date = (2024, 5, 18), dt_microseconds = 0\<rparr>, default_locale = ''pt_BR''\<rparr>
     (Criar_col_dat_hoje \<lparr>columns = [''a''], rows = [[IntV 1]]\<rparr> ''hoje'') =
     ([], Inr (PyDataFrame
                 \<lparr>columns = [''a'', ''hoje''], rows = [[IntV 1, DateV (2024, 5, 18)]]\<rparr>)) \<and>
   run example_engine
     \<lparr>clock = \<lparr>dt_date = (2024, 5, 17), dt_microseconds = 0\<rparr>, default_locale = ''pt_BR''\<rparr>
     (Formatar_cols_moeda \<lparr>columns = [''preco''], rows = [[IntV 5]]\<rparr> [''preco'']) =
     ([], Inr (PyDataFrame \<lparr>columns = [''preco''], rows = [[StrV ''BRL 5,00'']]\<rparr>)) \<and>
   run example_engine
     \<lparr>clock = \<lparr>dt_date = (2024, 5, 17), dt_microseconds = 0\<rparr>, default_locale = ''en_US''\<rparr>
     (Formatar_cols_moeda \<lparr>columns = [''preco''], rows = [[IntV 5]]\<rparr> [''preco'']) =
     ([], Inr (PyDataFrame \<lparr>columns = [''preco''], rows = [[StrV ''BRL 5.00'']]\<rparr>))"
  by code_simp

text \<open>
  Claim C4 as amended: the input of a call is the dataframe, with the engine session
  it belongs to, and the arguments. Of the environment, \<^verbatim>\<open>criar_col_dat_hoje\<close> reads
  the clock, for the calendar date alone, \<^verbatim>\<open>formatar_cols_moeda\<close> reads the default
  locale, and no other function reads anything. Two runs of a function on the same
  input, in any two environments, give the same printed lines and the same result or
  error, when the function is neither of the two; two runs of
  \<^verbatim>\<open>criar_col_dat_hoje\<close> do when both fall on the same day, and two runs of
  \<^verbatim>\<open>formatar_cols_moeda\<close> do when both have the same default locale.
\<close>

theorem run_depends_on_day_and_locale:
  "(is_criar_col_dat_hoje c \<longrightarrow> dt_date (clock env1) = dt_date (clock env2)) \<and>
   (is_formatar_cols_moeda c \<longrightarrow> default_locale env1 = default_locale env2) \<Longrightarrow>
   run eng env1 c = run eng env2 c"
  by (cases c)
     (simp_all add: criar_col_dat_hoje_def strftime_ymd_def filtrar_ultimos_n_meses_def
        obter_data_inicial_def obter_distrib_data_def
        obter_distrib_def obter_intervalo_def renomear_cols_def remover_cols_hudi_def
        renomear_cols_para_minusculo_def obter_pct_def formatar_cols_moeda_def
        formatar_cols_decimal_def formatar_cols_float_def formatar_cols_int_def
        formatar_cols_zeros_a_esquerda_def remover_espacos_extra_def agrupar_def
        mostrar_visao_geral_def mostrar_teste_granularidade_def orderBy_dict_def
        obter_top_valores_def preencher_nulos_def obter_qtd_ausentes_def
        obter_pct_ausentes_def obter_qtd_zeros_def obter_pct_zeros_def
        obter_qtd_distintos_def obter_pct_distintos_def selecionar_cols_distintas_def
        obter_tab_freq_def obter_tab_freq_periodo_def criar_col_qtd_digitos_def)

theorem run_depends_on_day_and_locale_witness:
  "dt_date (clock \<lparr>clock = \<lparr>dt_date = (2024, 5, 17), dt_microseconds = 5\<rparr>,
                   default_locale = ''pt_BR''\<rparr>) =
   dt_date (clock \<lparr>clock = \<lparr>dt_date = (2024, 5, 17), dt_microseconds = 86399000000\<rparr>,
                   default_locale = ''en_US''\<rparr>) \<and>
   run example_engine
     \<lparr>clock = \<lparr>dt_date = (2024, 5, 17), dt_microseconds = 5\<rparr>, default_locale = ''pt_BR''\<rparr>
     (Criar_col_dat_hoje \<lparr>columns = [''a''], rows = [[IntV 1]]\<rparr> ''hoje'') =
   run example_engine
     \<lparr>clock = \<lparr>dt_date = (2024, 5, 17), dt_microseconds = 86399000000\<rparr>,
      default_locale = ''en_US''\<rparr>
     (Criar_col_dat_hoje \<lparr>columns = [''a''], rows = [[IntV 1]]\<rparr> ''hoje'')"
proof -
  let ?env1 = "\<lparr>clock = \<lparr>dt_date = (2024, 5, 17), dt_microseconds = 5\<rparr>,
                 default_locale = ''pt_BR''\<rparr>"
  let ?env2 = "\<lparr>clock = \<lparr>dt_date = (2024, 5, 17), dt_microseconds = 86399000000\<rparr>,
                 default_locale = ''en_US''\<rparr>"
  let ?c = "Criar_col_dat_hoje \<lparr>columns = [''a''], rows = [[IntV 1]]\<rparr> ''hoje''"
  have h: "(is_criar_col_dat_hoje ?c \<longrightarrow> dt_date (clock ?env1) = dt_date (clock ?env2)) \<and>
           (is_formatar_cols_moeda ?c \<longrightarrow> default_locale ?env1 = default_locale ?env2)"
    by simp
  show ?thesis
    using run_depends_on_day_and_locale [OF h, of example_engine] by simp
qed

end
